theory Spec2Isabelle
  imports Main "HOL-Library.Word" "HOL-Library.Sublist"
begin

text \<open>
  Aegis Quick Share, \<open>background.js\<close>: on a click on the toolbar icon the service worker
  copies the address of the current tab to the clipboard and hands it to the companion
  application, through an event dispatched in a tab where the application is open, or
  else through the \<open>share_url\<close> parameter of a new tab. The embedding keeps the three
  functions of the source, \<open>dispatchShareIntent\<close>, \<open>copyToClipboard\<close> and
  \<open>handleShareAction\<close>; the browser is a parameter, and what a function does to it is a
  list of events.
\<close>

section \<open>JavaScript strings\<close>

text \<open>
  A JavaScript string is a sequence of 16-bit code units. String literals of the source
  are ASCII and are written through \<open>js\<close>.
\<close>

type_synonym jsstring = "16 word list"

definition js :: "string \<Rightarrow> jsstring" where
  "js s = map of_char s"

text \<open>\<open>String.prototype.startsWith\<close> with the default position 0.\<close>

definition startsWith :: "jsstring \<Rightarrow> jsstring \<Rightarrow> bool" where
  "startsWith s searchString =
     (length searchString \<le> length s \<and> take (length searchString) s = searchString)"

section \<open>Errors and the effect trace\<close>

text \<open>
  A thrown exception or a rejected promise is a value: \<open>URIError\<close> is what
  \<open>encodeURIComponent\<close> throws, \<open>Rejected n\<close> stands for any failure of a platform
  call (permission denied, tab gone, context torn down; \<open>n\<close> is its opaque reason).
\<close>

datatype error = URIError | Rejected nat

text \<open>
  The two functions the service worker injects with \<open>chrome.scripting.executeScript\<close>.
  \<open>clipboardWriteText\<close> is the arrow function of lines 52 to 54: it calls
  \<open>navigator.clipboard.writeText\<close> and returns nothing, so the promise of the write is not
  handed back and how the write settles inside the page never reaches the service worker.
  What the worker can see fail is the injection. \<open>dispatchShareIntentFunc\<close> is
  \<open>dispatchShareIntent\<close>, modelled further down.
\<close>

datatype injected_func = clipboardWriteText | dispatchShareIntentFunc

text \<open>
  Every call the service worker issues to the platform is one event, in program order,
  with the arguments it was issued with: \<open>TabsUpdate i\<close> is
  \<open>chrome.tabs.update(i, {active: true})\<close>, \<open>WindowsUpdate w\<close> is
  \<open>chrome.windows.update(w, {focused: true})\<close>, \<open>ScriptingExecuteScript i f a\<close> is
  \<open>chrome.scripting.executeScript({target: {tabId: i}, func: f, args: [a]})\<close>.
\<close>

datatype event =
    ScriptingExecuteScript "int option" injected_func jsstring
  | TabsQuery jsstring
  | TabsUpdate "int option"
  | WindowsUpdate int
  | TabsCreate jsstring
  | ConsoleLog string
  | ConsoleWarn string
  | ConsoleError string error

text \<open>
  An asynchronous computation, run to completion: the events it issued and either the
  error it ended with (the promise rejected) or its value.
\<close>

type_synonym 'a io = "event list \<times> (error + 'a)"

definition bind_io :: "'a io \<Rightarrow> ('a \<Rightarrow> 'b io) \<Rightarrow> 'b io" where
  "bind_io m f =
     (case m of
        (t, Inl e) \<Rightarrow> (t, Inl e)
      | (t, Inr x) \<Rightarrow> (case f x of (t', r) \<Rightarrow> (t @ t', r)))"

definition try_catch :: "'a io \<Rightarrow> (error \<Rightarrow> 'a io) \<Rightarrow> 'a io" where
  "try_catch m handler =
     (case m of
        (t, Inl e) \<Rightarrow> (case handler e of (t', r) \<Rightarrow> (t @ t', r))
      | (t, Inr x) \<Rightarrow> (t, Inr x))"

definition emit :: "event \<Rightarrow> unit io" where
  "emit ev = ([ev], Inr ())"

text \<open>A platform call: the event, then the outcome the platform gives it.\<close>

definition await_call :: "event \<Rightarrow> error option \<Rightarrow> unit io" where
  "await_call ev outcome = ([ev], case outcome of None \<Rightarrow> Inr () | Some e \<Rightarrow> Inl e)"

section \<open>The platform\<close>

text \<open>A \<open>chrome.tabs.Tab\<close>: the fields the source reads. \<open>id\<close> and \<open>url\<close> are optional.\<close>

record tab =
  tab_id :: "int option"
  windowId :: int
  url :: "jsstring option"

text \<open>
  The browser is a parameter: for each call and its arguments, whether the promise
  resolves (\<open>None\<close>, or the tabs found) or rejects.
\<close>

record platform =
  executeScript :: "int option \<Rightarrow> injected_func \<Rightarrow> jsstring \<Rightarrow> error option"
  tabs_query :: "jsstring \<Rightarrow> error + tab list"
  tabs_update :: "int option \<Rightarrow> error option"
  windows_update :: "int \<Rightarrow> error option"
  tabs_create :: "jsstring \<Rightarrow> error option"

section \<open>\<open>encodeURIComponent\<close>\<close>

text \<open>
  ECMAScript \<open>Encode(string, "")\<close>: code units of the unescaped set are copied, every other
  code point is written as the percent-escaped octets of its UTF-8 encoding, and an
  unpaired surrogate throws \<open>URIError\<close>.
\<close>

definition uriUnescaped :: "16 word set" where
  "uriUnescaped = set (js
     ''ABCDEFGHIJKLMNOPQRSTUVWXYZabcdefghijklmnopqrstuvwxyz0123456789-_.!~*'' @ [0x27] @ js ''()'')"

definition isLeadSurrogate :: "16 word \<Rightarrow> bool" where
  "isLeadSurrogate c = (0xD800 \<le> unat c \<and> unat c \<le> 0xDBFF)"

definition isTrailSurrogate :: "16 word \<Rightarrow> bool" where
  "isTrailSurrogate c = (0xDC00 \<le> unat c \<and> unat c \<le> 0xDFFF)"

definition UTF16SurrogatePairToCodePoint :: "16 word \<Rightarrow> 16 word \<Rightarrow> nat" where
  "UTF16SurrogatePairToCodePoint lead trail =
     (unat lead - 0xD800) * 0x400 + (unat trail - 0xDC00) + 0x10000"

definition utf8_octets :: "nat \<Rightarrow> nat list" where
  "utf8_octets cp =
     (if cp < 0x80 then [cp]
      else if cp < 0x800 then [0xC0 + cp div 0x40, 0x80 + cp mod 0x40]
      else if cp < 0x10000 then
        [0xE0 + cp div 0x1000, 0x80 + (cp div 0x40) mod 0x40, 0x80 + cp mod 0x40]
      else
        [0xF0 + cp div 0x40000, 0x80 + (cp div 0x1000) mod 0x40,
         0x80 + (cp div 0x40) mod 0x40, 0x80 + cp mod 0x40])"

definition hexDigit :: "nat \<Rightarrow> 16 word" where
  "hexDigit d = js ''0123456789ABCDEF'' ! d"

definition percentEscape :: "nat \<Rightarrow> jsstring" where
  "percentEscape octet = [0x25, hexDigit (octet div 16), hexDigit (octet mod 16)]"

definition escapeCodePoint :: "nat \<Rightarrow> jsstring" where
  "escapeCodePoint cp = concat (map percentEscape (utf8_octets cp))"

definition append_result :: "jsstring \<Rightarrow> error + jsstring \<Rightarrow> error + jsstring" where
  "append_result r m = (case m of Inl e \<Rightarrow> Inl e | Inr s \<Rightarrow> Inr (r @ s))"

fun encodeURIComponent :: "jsstring \<Rightarrow> error + jsstring" where
  "encodeURIComponent [] = Inr []"
| "encodeURIComponent (c # cs) =
     (if c \<in> uriUnescaped then append_result [c] (encodeURIComponent cs)
      else if \<not> isLeadSurrogate c \<and> \<not> isTrailSurrogate c then
        append_result (escapeCodePoint (unat c)) (encodeURIComponent cs)
      else if isTrailSurrogate c then Inl URIError
      else (case cs of
              [] \<Rightarrow> Inl URIError
            | d # ds \<Rightarrow>
                if \<not> isTrailSurrogate d then Inl URIError
                else append_result (escapeCodePoint (UTF16SurrogatePairToCodePoint c d))
                       (encodeURIComponent ds)))"

section \<open>The service worker\<close>

definition APP_ORIGIN :: jsstring where
  "APP_ORIGIN = js ''https://aegis-e31n.onrender.com''"

definition DASHBOARD_URL :: jsstring where
  "DASHBOARD_URL = APP_ORIGIN @ js ''/dashboard/social''"

definition copyToClipboard :: "platform \<Rightarrow> jsstring \<Rightarrow> int option \<Rightarrow> unit io" where
  "copyToClipboard P text tabId =
     try_catch
       (bind_io
          (await_call (ScriptingExecuteScript tabId clipboardWriteText text)
             (executeScript P tabId clipboardWriteText text))
          (\<lambda>_. emit (ConsoleLog ''Aegis Quick Share: URL copied to clipboard'')))
       (\<lambda>error. emit (ConsoleError ''Aegis Quick Share: Failed to copy to clipboard'' error))"

text \<open>The existing-tab branch (lines 85 to 101), inside the \<open>try\<close>.\<close>

definition focusAndDispatch :: "platform \<Rightarrow> jsstring \<Rightarrow> tab list \<Rightarrow> unit io" where
  "focusAndDispatch P currentUrl aegisTabs =
     (let aegisTab = aegisTabs ! 0 in
      bind_io (await_call (TabsUpdate (tab_id aegisTab)) (tabs_update P (tab_id aegisTab)))
        (\<lambda>_. bind_io
           (await_call (WindowsUpdate (windowId aegisTab)) (windows_update P (windowId aegisTab)))
           (\<lambda>_. bind_io
              (await_call
                 (ScriptingExecuteScript (tab_id aegisTab) dispatchShareIntentFunc currentUrl)
                 (executeScript P (tab_id aegisTab) dispatchShareIntentFunc currentUrl))
              (\<lambda>_. emit (ConsoleLog
                 ''Aegis Quick Share: Dispatched share intent to existing tab'')))))"

text \<open>The new-tab branch (lines 103 to 108), inside the \<open>try\<close>.\<close>

definition openNewTab :: "platform \<Rightarrow> jsstring \<Rightarrow> unit io" where
  "openNewTab P currentUrl =
     bind_io ([], encodeURIComponent currentUrl)
       (\<lambda>encoded.
          let shareUrl = DASHBOARD_URL @ js ''?share_url='' @ encoded in
          bind_io (await_call (TabsCreate shareUrl) (tabs_create P shareUrl))
            (\<lambda>_. emit (ConsoleLog ''Aegis Quick Share: Opened new Aegis tab with share URL'')))"

text \<open>The \<open>try\<close> region (lines 81 to 109): the tab query and the branch on its result.\<close>

definition shareFlow :: "platform \<Rightarrow> jsstring \<Rightarrow> unit io" where
  "shareFlow P currentUrl =
     bind_io ([TabsQuery (APP_ORIGIN @ js ''/*'')], tabs_query P (APP_ORIGIN @ js ''/*''))
       (\<lambda>aegisTabs.
          if length aegisTabs > 0 then focusAndDispatch P currentUrl aegisTabs
          else openNewTab P currentUrl)"

definition handleShareAction :: "platform \<Rightarrow> tab \<Rightarrow> unit io" where
  "handleShareAction P t =
     (case url t of
        None \<Rightarrow> emit (ConsoleWarn ''Aegis Quick Share: Cannot share this page type'')
      | Some currentUrl \<Rightarrow>
          if currentUrl = [] \<or> startsWith currentUrl (js ''chrome://'')
             \<or> startsWith currentUrl (js ''chrome-extension://'')
          then emit (ConsoleWarn ''Aegis Quick Share: Cannot share this page type'')
          else
            bind_io (copyToClipboard P currentUrl (tab_id t))
              (\<lambda>_. try_catch (shareFlow P currentUrl)
                 (\<lambda>error. emit
                    (ConsoleError ''Aegis Quick Share: Error during share action'' error))))"

section \<open>Observations on a run\<close>

text \<open>
  The pages the guard of line 72 rejects: the address is absent or empty, or has the
  prefix \<open>chrome://\<close> or \<open>chrome-extension://\<close>. "Begins with" is \<open>prefix\<close>; the code
  tests with \<open>startsWith\<close>.
\<close>

definition nonShareable :: "tab \<Rightarrow> bool" where
  "nonShareable t =
     (case url t of
        None \<Rightarrow> True
      | Some u \<Rightarrow> u = [] \<or> prefix (js ''chrome://'') u \<or> prefix (js ''chrome-extension://'') u)"

text \<open>
  The non-shareable pages, in the words of the specification: the address is absent, or
  begins with an internal-browser scheme or with the extension-internal scheme. The
  internal schemes are those of the browsers the extension runs in, and \<open>about:\<close>.
\<close>

definition internalBrowserSchemes :: "jsstring list" where
  "internalBrowserSchemes =
     [js ''chrome://'', js ''edge://'', js ''about:'', js ''devtools://'',
      js ''chrome-untrusted://'']"

definition extensionInternalSchemes :: "jsstring list" where
  "extensionInternalSchemes = [js ''chrome-extension://'']"

definition hasInternalScheme :: "tab \<Rightarrow> bool" where
  "hasInternalScheme t =
     (case url t of
        None \<Rightarrow> True
      | Some u \<Rightarrow>
          list_ex (\<lambda>scheme. prefix scheme u) (internalBrowserSchemes @ extensionInternalSchemes))"


fun isDispatcherInjection :: "event \<Rightarrow> bool" where
  "isDispatcherInjection (ScriptingExecuteScript i f a) = (f = dispatchShareIntentFunc)"
| "isDispatcherInjection _ = False"


fun isTabsUpdate :: "event \<Rightarrow> bool" where
  "isTabsUpdate (TabsUpdate i) = True"
| "isTabsUpdate _ = False"

fun isWindowsUpdate :: "event \<Rightarrow> bool" where
  "isWindowsUpdate (WindowsUpdate w) = True"
| "isWindowsUpdate _ = False"

fun isTabsCreate :: "event \<Rightarrow> bool" where
  "isTabsCreate (TabsCreate a) = True"
| "isTabsCreate _ = False"

text \<open>The calls that reach the browser: everything but the console.\<close>

fun isPlatformCall :: "event \<Rightarrow> bool" where
  "isPlatformCall (ConsoleLog m) = False"
| "isPlatformCall (ConsoleWarn m) = False"
| "isPlatformCall (ConsoleError m e) = False"
| "isPlatformCall _ = True"

text \<open>Browsers for the examples: one where every call resolves, some where one call rejects.\<close>

definition browser :: "tab list \<Rightarrow> platform" where
  "browser tabs =
     \<lparr>executeScript = (\<lambda>i f a. None), tabs_query = (\<lambda>p. Inr tabs),
      tabs_update = (\<lambda>i. None), windows_update = (\<lambda>w. None), tabs_create = (\<lambda>a. None)\<rparr>"

definition browser_clipboard_denied :: "tab list \<Rightarrow> platform" where
  "browser_clipboard_denied tabs =
     (browser tabs)\<lparr>executeScript :=
        (\<lambda>i f a. if f = clipboardWriteText then Some (Rejected 1) else None)\<rparr>"

definition browser_activation_fails :: "tab list \<Rightarrow> platform" where
  "browser_activation_fails tabs = (browser tabs)\<lparr>tabs_update := (\<lambda>i. Some (Rejected 2))\<rparr>"

definition browser_focus_fails :: "tab list \<Rightarrow> platform" where
  "browser_focus_fails tabs = (browser tabs)\<lparr>windows_update := (\<lambda>w. Some (Rejected 3))\<rparr>"

definition browser_query_fails :: platform where
  "browser_query_fails = (browser [])\<lparr>tabs_query := (\<lambda>p. Inl (Rejected 4))\<rparr>"

definition page_tab :: "jsstring \<Rightarrow> tab" where
  "page_tab u = \<lparr>tab_id = Some 7, windowId = 1, url = Some u\<rparr>"

definition aegis_tab :: "int \<Rightarrow> tab" where
  "aegis_tab i =
     \<lparr>tab_id = Some i, windowId = 100 + i,
      url = Some (js ''https://aegis-e31n.onrender.com/dashboard'')\<rparr>"

section \<open>Reading the query parameter back\<close>

text \<open>
  The receiving page is not part of the repository. What "decoding the query parameter"
  means is fixed here as the page would do it: the address is cut at \<open>?\<close> and \<open>#\<close>,
  the query at \<open>&\<close>, each pair at its first \<open>=\<close>, and the value goes through
  ECMAScript \<open>decodeURIComponent\<close> (\<open>Decode(string, "")\<close>), which throws \<open>URIError\<close> on a
  malformed escape or on octets that are not the UTF-8 encoding of a code point.
\<close>

definition hexValue :: "16 word \<Rightarrow> nat option" where
  "hexValue c =
     (if 0x30 \<le> unat c \<and> unat c \<le> 0x39 then Some (unat c - 0x30)
      else if 0x41 \<le> unat c \<and> unat c \<le> 0x46 then Some (unat c - 0x41 + 10)
      else if 0x61 \<le> unat c \<and> unat c \<le> 0x66 then Some (unat c - 0x61 + 10)
      else None)"

fun ParseHexOctet :: "jsstring \<Rightarrow> nat option" where
  "ParseHexOctet (a # b # rest) =
     (case hexValue a of
        None \<Rightarrow> None
      | Some x \<Rightarrow> (case hexValue b of None \<Rightarrow> None | Some y \<Rightarrow> Some (16 * x + y)))"
| "ParseHexOctet _ = None"

text \<open>The number of leading 1 bits of an octet; 5 stands for five or more.\<close>

definition leadingOnes :: "nat \<Rightarrow> nat" where
  "leadingOnes B =
     (if B < 0x80 then 0 else if B < 0xC0 then 1 else if B < 0xE0 then 2
      else if B < 0xF0 then 3 else if B < 0xF8 then 4 else 5)"

fun continuationOctets :: "nat \<Rightarrow> jsstring \<Rightarrow> nat list option" where
  "continuationOctets 0 s = Some []"
| "continuationOctets (Suc j) s =
     (case s of
        [] \<Rightarrow> None
      | c # rest \<Rightarrow>
          if c \<noteq> 0x25 then None
          else (case ParseHexOctet rest of
                  None \<Rightarrow> None
                | Some b \<Rightarrow>
                    (case continuationOctets j (drop 2 rest) of
                       None \<Rightarrow> None
                     | Some bs \<Rightarrow> Some (b # bs))))"

definition isContinuation :: "nat \<Rightarrow> bool" where
  "isContinuation b = (0x80 \<le> b \<and> b < 0xC0)"

text \<open>
  The code point of a well-formed UTF-8 sequence of two to four octets: continuation
  octets in range, no overlong form, no surrogate, nothing above \<open>0x10FFFF\<close>.
\<close>

fun utf8_codepoint :: "nat list \<Rightarrow> nat option" where
  "utf8_codepoint [a, b] =
     (if isContinuation b \<and> 0x80 \<le> (a - 0xC0) * 0x40 + (b - 0x80)
      then Some ((a - 0xC0) * 0x40 + (b - 0x80)) else None)"
| "utf8_codepoint [a, b, c] =
     (if isContinuation b \<and> isContinuation c
         \<and> 0x800 \<le> (a - 0xE0) * 0x1000 + (b - 0x80) * 0x40 + (c - 0x80)
         \<and> \<not> (0xD800 \<le> (a - 0xE0) * 0x1000 + (b - 0x80) * 0x40 + (c - 0x80)
              \<and> (a - 0xE0) * 0x1000 + (b - 0x80) * 0x40 + (c - 0x80) \<le> 0xDFFF)
      then Some ((a - 0xE0) * 0x1000 + (b - 0x80) * 0x40 + (c - 0x80)) else None)"
| "utf8_codepoint [a, b, c, d] =
     (if isContinuation b \<and> isContinuation c \<and> isContinuation d
         \<and> 0x10000 \<le> (a - 0xF0) * 0x40000 + (b - 0x80) * 0x1000 + (c - 0x80) * 0x40 + (d - 0x80)
         \<and> (a - 0xF0) * 0x40000 + (b - 0x80) * 0x1000 + (c - 0x80) * 0x40 + (d - 0x80) \<le> 0x10FFFF
      then Some ((a - 0xF0) * 0x40000 + (b - 0x80) * 0x1000 + (c - 0x80) * 0x40 + (d - 0x80))
      else None)"
| "utf8_codepoint _ = None"

definition UTF16EncodeCodePoint :: "nat \<Rightarrow> jsstring" where
  "UTF16EncodeCodePoint cp =
     (if cp \<le> 0xFFFF then [of_nat cp]
      else [of_nat ((cp - 0x10000) div 0x400 + 0xD800),
            of_nat ((cp - 0x10000) mod 0x400 + 0xDC00)])"

fun decodeURIComponent :: "jsstring \<Rightarrow> error + jsstring" where
  "decodeURIComponent [] = Inr []"
| "decodeURIComponent (c # cs) =
     (if c \<noteq> 0x25 then append_result [c] (decodeURIComponent cs)
      else (case ParseHexOctet cs of
              None \<Rightarrow> Inl URIError
            | Some B \<Rightarrow>
                if leadingOnes B = 0
                then append_result [of_nat B] (decodeURIComponent (drop 2 cs))
                else if leadingOnes B = 1 \<or> 4 < leadingOnes B then Inl URIError
                else (case continuationOctets (leadingOnes B - 1) (drop 2 cs) of
                        None \<Rightarrow> Inl URIError
                      | Some octets \<Rightarrow>
                          (case utf8_codepoint (B # octets) of
                             None \<Rightarrow> Inl URIError
                           | Some V \<Rightarrow>
                               append_result (UTF16EncodeCodePoint V)
                                 (decodeURIComponent
                                    (drop (2 + 3 * (leadingOnes B - 1)) cs))))))"

fun splitOn :: "'a \<Rightarrow> 'a list \<Rightarrow> 'a list list" where
  "splitOn sep [] = [[]]"
| "splitOn sep (x # xs) =
     (if x = sep then [] # splitOn sep xs
      else (case splitOn sep xs of
              [] \<Rightarrow> [[x]]
            | piece # pieces \<Rightarrow> (x # piece) # pieces))"

text \<open>The raw value of the first query parameter of that name in an address.\<close>

definition searchParam :: "jsstring \<Rightarrow> jsstring \<Rightarrow> jsstring option" where
  "searchParam name address =
     map_of
       (map (\<lambda>pair. (takeWhile (\<lambda>c. c \<noteq> 0x3D) pair, drop 1 (dropWhile (\<lambda>c. c \<noteq> 0x3D) pair)))
          (splitOn 0x26
             (takeWhile (\<lambda>c. c \<noteq> 0x23) (drop 1 (dropWhile (\<lambda>c. c \<noteq> 0x3F) address)))))
       name"

text \<open>\<open>String.prototype.isWellFormed\<close>: no unpaired surrogate.\<close>

fun isWellFormed :: "jsstring \<Rightarrow> bool" where
  "isWellFormed [] = True"
| "isWellFormed (c # cs) =
     (if isLeadSurrogate c then
        (case cs of [] \<Rightarrow> False | d # ds \<Rightarrow> isTrailSurrogate d \<and> isWellFormed ds)
      else \<not> isTrailSurrogate c \<and> isWellFormed cs)"

text \<open>What the receiving page reads out of an address: the decoded \<open>share_url\<close> parameter.\<close>

definition decodedShareUrl :: "jsstring \<Rightarrow> jsstring option" where
  "decodedShareUrl address =
     (case searchParam (js ''share_url'') address of
        None \<Rightarrow> None
      | Some v \<Rightarrow> (case decodeURIComponent v of Inl e \<Rightarrow> None | Inr s \<Rightarrow> Some s))"

section \<open>The injected dispatcher\<close>

text \<open>
  \<open>dispatchShareIntent\<close> runs inside the companion page. Of the page, the model keeps
  what the function reads and writes: the focused element, its tag name, the state of its
  \<open>type\<close> attribute (which decides what the native \<open>value\<close> setter of an \<open>INPUT\<close> does)
  and the value the \<open>value\<close> getter returns. Elements are HTML elements. What the
  function does to the page is a list of page events in program order; \<open>setTimeout\<close>
  registers a timer, a delay and a callback that the event loop runs on the page as it is
  once the delay has elapsed.
\<close>

datatype input_type =
    type_hidden | type_text | type_search | type_tel | type_url | type_email | type_password
  | type_date | type_month | type_week | type_time | type_datetime_local | type_number
  | type_range | type_color | type_checkbox | type_radio | type_file | type_submit
  | type_image | type_reset | type_button

record element =
  tagName :: jsstring
  input_type :: input_type
  element_value :: jsstring

text \<open>
  \<open>valueSanitization\<close> is the value sanitization algorithm of the page's browser for the
  types whose algorithm is not written out below (dates and times, range, colour, and
  e-mail, which depends on the \<open>multiple\<close> attribute).
\<close>

record page =
  activeElement :: "element option"
  valueSanitization :: "input_type \<Rightarrow> jsstring \<Rightarrow> jsstring"

datatype prototype = HTMLInputElement_prototype | HTMLTextAreaElement_prototype

datatype dom_error = InvalidStateError

text \<open>
  \<open>WindowDispatchCustomEvent ty detail\<close> is
  \<open>window.dispatchEvent(new CustomEvent(ty, {detail}))\<close>, the detail object given by its
  properties; \<open>NativeValueSet p v\<close> is the \<open>value\<close> setter of prototype \<open>p\<close> called on the
  focused element; \<open>ActiveElementDispatchEvent ty bubbles\<close> is
  \<open>activeElement.dispatchEvent(new Event(ty, {bubbles}))\<close>;
  \<open>DocumentDispatchClipboardEvent ty bubbles cancelable items\<close> is
  \<open>document.dispatchEvent\<close> of a \<open>ClipboardEvent\<close> whose \<open>clipboardData\<close> holds \<open>items\<close>.
\<close>

datatype page_event =
    WindowDispatchCustomEvent jsstring "(jsstring \<times> jsstring) list"
  | NativeValueSet prototype jsstring
  | ActiveElementDispatchEvent jsstring bool
  | DocumentDispatchClipboardEvent jsstring bool bool "(jsstring \<times> jsstring) list"

subsection \<open>The native value setters\<close>

text \<open>
  The setters of \<open>HTMLInputElement.prototype\<close> and \<open>HTMLTextAreaElement.prototype\<close>, as the
  HTML standard has them. On an \<open>INPUT\<close> the outcome depends on the type: the value is
  stored as given (the types whose value is the content attribute), stored after the
  sanitization of the type (line breaks stripped, white space trimmed, anything but a
  valid number replaced by the empty string), or, for type \<open>file\<close>, refused with an
  \<open>InvalidStateError\<close> unless it is empty. A \<open>TEXTAREA\<close> stores the value and reads it back
  with its line breaks normalised.
\<close>

definition stripNewlines :: "jsstring \<Rightarrow> jsstring" where
  "stripNewlines v = filter (\<lambda>c. c \<noteq> 0x0A \<and> c \<noteq> 0x0D) v"

definition isAsciiWhitespace :: "16 word \<Rightarrow> bool" where
  "isAsciiWhitespace c = (c = 0x09 \<or> c = 0x0A \<or> c = 0x0C \<or> c = 0x0D \<or> c = 0x20)"

definition stripWhitespace :: "jsstring \<Rightarrow> jsstring" where
  "stripWhitespace v = rev (dropWhile isAsciiWhitespace (rev (dropWhile isAsciiWhitespace v)))"

fun normalizeNewlines :: "jsstring \<Rightarrow> jsstring" where
  "normalizeNewlines [] = []"
| "normalizeNewlines [c] = (if c = 0x0D then [0x0A] else [c])"
| "normalizeNewlines (c # d # ds) =
     (if c = 0x0D \<and> d = 0x0A then 0x0A # normalizeNewlines ds
      else if c = 0x0D then 0x0A # normalizeNewlines (d # ds)
      else c # normalizeNewlines (d # ds))"

definition isAsciiDigit :: "16 word \<Rightarrow> bool" where
  "isAsciiDigit c = (0x30 \<le> unat c \<and> unat c \<le> 0x39)"

text \<open>
  A valid floating-point number: an optional \<open>-\<close>, then digits, or a \<open>.\<close> and digits, or
  both in that order, then optionally \<open>e\<close> or \<open>E\<close>, an optional sign, and digits.
\<close>

definition validExponent :: "jsstring \<Rightarrow> bool" where
  "validExponent s =
     (case s of
        [] \<Rightarrow> True
      | c # r \<Rightarrow>
          (c = 0x65 \<or> c = 0x45)
          \<and> (case r of
                [] \<Rightarrow> False
              | x # t \<Rightarrow>
                  if x = 0x2D \<or> x = 0x2B then t \<noteq> [] \<and> list_all isAsciiDigit t
                  else list_all isAsciiDigit r))"

definition validFloatingPointNumber :: "jsstring \<Rightarrow> bool" where
  "validFloatingPointNumber s =
     (let s1 = (case s of [] \<Rightarrow> [] | c # r \<Rightarrow> if c = 0x2D then r else s) in
      case dropWhile isAsciiDigit s1 of
        [] \<Rightarrow> takeWhile isAsciiDigit s1 \<noteq> []
      | c # r \<Rightarrow>
          if c = 0x2E
          then takeWhile isAsciiDigit r \<noteq> [] \<and> validExponent (dropWhile isAsciiDigit r)
          else takeWhile isAsciiDigit s1 \<noteq> [] \<and> validExponent (c # r))"

fun inputValueSetter ::
  "(input_type \<Rightarrow> jsstring \<Rightarrow> jsstring) \<Rightarrow> input_type \<Rightarrow> jsstring \<Rightarrow> dom_error + jsstring" where
  "inputValueSetter sanitize type_file v = (if v = [] then Inr [] else Inl InvalidStateError)"
| "inputValueSetter sanitize type_hidden v = Inr v"
| "inputValueSetter sanitize type_checkbox v = Inr v"
| "inputValueSetter sanitize type_radio v = Inr v"
| "inputValueSetter sanitize type_submit v = Inr v"
| "inputValueSetter sanitize type_image v = Inr v"
| "inputValueSetter sanitize type_reset v = Inr v"
| "inputValueSetter sanitize type_button v = Inr v"
| "inputValueSetter sanitize type_text v = Inr (stripNewlines v)"
| "inputValueSetter sanitize type_search v = Inr (stripNewlines v)"
| "inputValueSetter sanitize type_tel v = Inr (stripNewlines v)"
| "inputValueSetter sanitize type_password v = Inr (stripNewlines v)"
| "inputValueSetter sanitize type_url v = Inr (stripWhitespace (stripNewlines v))"
| "inputValueSetter sanitize type_number v = Inr (if validFloatingPointNumber v then v else [])"
| "inputValueSetter sanitize ty v = Inr (sanitize ty v)"

text \<open>
  \<open>setter.call(el, v)\<close>, for the setter of prototype \<open>p\<close>: the element with its new
  value, or the exception thrown.
\<close>

definition nativeValueSetter ::
  "(input_type \<Rightarrow> jsstring \<Rightarrow> jsstring) \<Rightarrow> prototype \<Rightarrow> element \<Rightarrow> jsstring \<Rightarrow> dom_error + element" where
  "nativeValueSetter sanitize p el v =
     (case p of
        HTMLTextAreaElement_prototype \<Rightarrow> Inr (el\<lparr>element_value := normalizeNewlines v\<rparr>)
      | HTMLInputElement_prototype \<Rightarrow>
          (case inputValueSetter sanitize (input_type el) v of
             Inl e \<Rightarrow> Inl e
           | Inr stored \<Rightarrow> Inr (el\<lparr>element_value := stored\<rparr>)))"

subsection \<open>\<open>dispatchShareIntent\<close>\<close>

text \<open>
  A callback ends with the events it caused, the page it leaves, and the exception it
  threw, if any; nothing catches an exception thrown in a timer callback.
\<close>

type_synonym timer = "nat \<times> (page \<Rightarrow> page_event list \<times> page \<times> dom_error option)"

text \<open>The callback given to \<open>setTimeout\<close> (lines 17 to 40).\<close>

definition pasteFallback :: "jsstring \<Rightarrow> page \<Rightarrow> page_event list \<times> page \<times> dom_error option" where
  "pasteFallback u pg =
     ([DocumentDispatchClipboardEvent (js ''paste'') True True [(js ''text/plain'', u)]],
      pg, None)"

definition timeoutCallback :: "jsstring \<Rightarrow> page \<Rightarrow> page_event list \<times> page \<times> dom_error option" where
  "timeoutCallback u pg =
     (case activeElement pg of
        None \<Rightarrow> pasteFallback u pg
      | Some el \<Rightarrow>
          if tagName el = js ''INPUT'' \<or> tagName el = js ''TEXTAREA'' then
            (let p = (if tagName el = js ''INPUT'' then HTMLInputElement_prototype
                      else HTMLTextAreaElement_prototype) in
             case nativeValueSetter (valueSanitization pg) p el u of
               Inl e \<Rightarrow> ([NativeValueSet p u], pg, Some e)
             | Inr el' \<Rightarrow>
                 ([NativeValueSet p u, ActiveElementDispatchEvent (js ''input'') True],
                  pg\<lparr>activeElement := Some el'\<rparr>, None))
          else pasteFallback u pg)"

definition dispatchShareIntent :: "jsstring \<Rightarrow> page_event list \<times> timer list" where
  "dispatchShareIntent u =
     ([WindowDispatchCustomEvent (js ''AEGIS_SHARE_INTENT'') [(js ''url'', u)]],
      [(100, timeoutCallback u)])"

text \<open>
  The event loop: of the registered timers, those whose delay has elapsed run, in order,
  each on the page the previous one left; an exception ends the callback that threw it
  and is reported, the others still run.
\<close>

fun fireDue ::
  "nat \<Rightarrow> timer list \<Rightarrow> page \<Rightarrow> page_event list \<times> page \<times> dom_error list" where
  "fireDue elapsed [] pg = ([], pg, [])"
| "fireDue elapsed ((delay, callback) # timers) pg =
     (if delay \<le> elapsed then
        (case callback pg of
           (evs, pg', thrown) \<Rightarrow>
             (case fireDue elapsed timers pg' of
                (evs', pg'', errs) \<Rightarrow>
                  (evs @ evs', pg'', (case thrown of None \<Rightarrow> [] | Some e \<Rightarrow> [e]) @ errs)))
      else fireDue elapsed timers pg)"

text \<open>
  What the injection has done to the page \<open>elapsed\<close> time units after it ran, \<open>pg\<close> being
  the page the timers find: the events, the page, and the exceptions left uncaught.
\<close>

definition injectedRun ::
  "jsstring \<Rightarrow> nat \<Rightarrow> page \<Rightarrow> page_event list \<times> page \<times> dom_error list" where
  "injectedRun u elapsed pg =
     (case dispatchShareIntent u of
        (evs, timers) \<Rightarrow>
          (case fireDue elapsed timers pg of (evs', pg', errs) \<Rightarrow> (evs @ evs', pg', errs)))"




fun isCustomEvent :: "page_event \<Rightarrow> bool" where
  "isCustomEvent (WindowDispatchCustomEvent ty detail) = True"
| "isCustomEvent _ = False"



text \<open>Pages for the examples, each with one focused element.\<close>

definition page_focused :: "element \<Rightarrow> page" where
  "page_focused el = \<lparr>activeElement = Some el, valueSanitization = (\<lambda>ty v. [])\<rparr>"




definition number_element :: element where
  "number_element = \<lparr>tagName = js ''INPUT'', input_type = type_number, element_value = js ''7''\<rparr>"

definition file_element :: element where
  "file_element = \<lparr>tagName = js ''INPUT'', input_type = type_file, element_value = []\<rparr>"


section \<open>The injected clipboard function\<close>

text \<open>
  The arrow function of lines 52 to 54, as it runs in the page. It calls
  \<open>navigator.clipboard.writeText\<close>, which returns a promise; \<open>settles\<close> is how that
  promise settles (\<open>None\<close>: the text is on the clipboard; \<open>Some e\<close>: the write is refused,
  permission denied or document not focused). The body is a block with no \<open>return\<close>, so
  the function returns \<open>undefined\<close> and the promise is dropped: a rejection is left
  unhandled in the page. The third component lists the rejections nobody handles.
\<close>

datatype js_return = Undefined | Promise "error option"

datatype clipboard_event = NavigatorClipboardWriteText jsstring

definition clipboardWriteFunc ::
  "error option \<Rightarrow> jsstring \<Rightarrow> clipboard_event list \<times> js_return \<times> error list" where
  "clipboardWriteFunc settles textToCopy =
     ([NavigatorClipboardWriteText textToCopy], Undefined,
      (case settles of None \<Rightarrow> [] | Some e \<Rightarrow> [e]))"

text \<open>
  The promise of \<open>chrome.scripting.executeScript\<close>: rejected when the injection is refused;
  otherwise settled with what the injected function returned, waiting for it when it is
  a promise.
\<close>

definition injectionOutcome :: "error option \<Rightarrow> js_return \<Rightarrow> error option" where
  "injectionOutcome refused returned =
     (case refused of
        Some e \<Rightarrow> Some e
      | None \<Rightarrow> (case returned of Undefined \<Rightarrow> None | Promise settles \<Rightarrow> settles))"

text \<open>
  A browser where every call resolves and the page refuses the clipboard write: the
  injection of the clipboard function settles with what the function returns.
\<close>

definition browser_write_denied :: "tab list \<Rightarrow> platform" where
  "browser_write_denied tabs =
     (browser tabs)\<lparr>executeScript :=
        (\<lambda>i f a.
           if f = clipboardWriteText
           then injectionOutcome None (fst (snd (clipboardWriteFunc (Some (Rejected 5)) a)))
           else None)\<rparr>"

section \<open>Runs of the service worker\<close>

lemma startsWith_prefix: "startsWith s p = prefix p s"
  by (auto simp: startsWith_def prefix_def take_is_prefix dest: prefix_length_le)
     (metis append_take_drop_id)

lemma copyToClipboard_run:
  "copyToClipboard P text i =
     ([ScriptingExecuteScript i clipboardWriteText text,
       (case executeScript P i clipboardWriteText text of
          None \<Rightarrow> ConsoleLog ''Aegis Quick Share: URL copied to clipboard''
        | Some e \<Rightarrow> ConsoleError ''Aegis Quick Share: Failed to copy to clipboard'' e)],
      Inr ())"
  by (simp add: copyToClipboard_def try_catch_def bind_io_def await_call_def emit_def
      split: option.splits)

lemma focusAndDispatch_run:
  "focusAndDispatch P u (a # as) =
    (case tabs_update P (tab_id a) of
       Some e \<Rightarrow> ([TabsUpdate (tab_id a)], Inl e)
     | None \<Rightarrow>
        (case windows_update P (windowId a) of
           Some e \<Rightarrow> ([TabsUpdate (tab_id a), WindowsUpdate (windowId a)], Inl e)
         | None \<Rightarrow>
            (case executeScript P (tab_id a) dispatchShareIntentFunc u of
               Some e \<Rightarrow> ([TabsUpdate (tab_id a), WindowsUpdate (windowId a),
                           ScriptingExecuteScript (tab_id a) dispatchShareIntentFunc u], Inl e)
             | None \<Rightarrow> ([TabsUpdate (tab_id a), WindowsUpdate (windowId a),
                         ScriptingExecuteScript (tab_id a) dispatchShareIntentFunc u,
                         ConsoleLog ''Aegis Quick Share: Dispatched share intent to existing tab''],
                        Inr ()))))"
  by (simp add: focusAndDispatch_def bind_io_def await_call_def emit_def split: option.splits)

lemma openNewTab_run:
  "openNewTab P u =
    (case encodeURIComponent u of
       Inl e \<Rightarrow> ([], Inl e)
     | Inr enc \<Rightarrow>
        (case tabs_create P (DASHBOARD_URL @ js ''?share_url='' @ enc) of
           Some e \<Rightarrow> ([TabsCreate (DASHBOARD_URL @ js ''?share_url='' @ enc)], Inl e)
         | None \<Rightarrow> ([TabsCreate (DASHBOARD_URL @ js ''?share_url='' @ enc),
                     ConsoleLog ''Aegis Quick Share: Opened new Aegis tab with share URL''],
                    Inr ())))"
  by (simp add: openNewTab_def bind_io_def await_call_def emit_def Let_def
      split: option.splits sum.splits)

lemma shareFlow_run:
  "shareFlow P u =
     (case tabs_query P (APP_ORIGIN @ js ''/*'') of
        Inl e \<Rightarrow> ([TabsQuery (APP_ORIGIN @ js ''/*'')], Inl e)
      | Inr [] \<Rightarrow> (TabsQuery (APP_ORIGIN @ js ''/*'') # fst (openNewTab P u), snd (openNewTab P u))
      | Inr (a # as) \<Rightarrow>
          (TabsQuery (APP_ORIGIN @ js ''/*'') # fst (focusAndDispatch P u (a # as)),
           snd (focusAndDispatch P u (a # as))))"
  by (simp add: shareFlow_def bind_io_def split_beta split: sum.splits list.splits)

lemma handle_nonShareable:
  "nonShareable t \<Longrightarrow>
   handleShareAction P t = ([ConsoleWarn ''Aegis Quick Share: Cannot share this page type''], Inr ())"
  by (auto simp: nonShareable_def handleShareAction_def startsWith_prefix emit_def
      split: option.splits)

lemma handle_shareable:
  "\<not> nonShareable t \<Longrightarrow> url t = Some u \<Longrightarrow>
   handleShareAction P t =
     (fst (copyToClipboard P u (tab_id t)) @ fst (shareFlow P u) @
        (case snd (shareFlow P u) of
           Inl e \<Rightarrow> [ConsoleError ''Aegis Quick Share: Error during share action'' e]
         | Inr x \<Rightarrow> []),
      Inr ())"
  by (cases "shareFlow P u")
     (auto simp: nonShareable_def handleShareAction_def startsWith_prefix emit_def
      copyToClipboard_run bind_io_def try_catch_def split: sum.splits)

lemma shareFlow_starts_with_query:
  "fst (shareFlow P u) = TabsQuery (APP_ORIGIN @ js ''/*'') # tl (fst (shareFlow P u))"
  by (simp add: shareFlow_run split: sum.splits list.splits)



section \<open>Encoding and decoding\<close>

lemma nat_lt_16_cases:
  "d < (16::nat) \<Longrightarrow> d \<in> {0,1,2,3,4,5,6,7,8,9,10,11,12,13,14,15}"
  by simp arith

lemma hexValue_hexDigit: "d < 16 \<Longrightarrow> hexValue (hexDigit d) = Some d"
  by (drule nat_lt_16_cases) (auto simp: hexValue_def hexDigit_def js_def)

lemma ParseHexOctet_escape:
  assumes "B < 256"
  shows "ParseHexOctet (hexDigit (B div 16) # hexDigit (B mod 16) # rest) = Some B"
proof -
  have "B div 16 < 16" using assms by simp
  moreover have "B mod 16 < 16" by simp
  ultimately show ?thesis by (simp add: hexValue_hexDigit)
qed

lemma utf8_arith3:
  "(cp::nat) div 0x1000 * 0x1000 + cp div 0x40 mod 0x40 * 0x40 + cp mod 0x40 = cp"
proof -
  define q where "q = cp div 0x40"
  have d: "cp div 0x1000 = q div 0x40"
    unfolding q_def by (simp add: div_mult2_eq [symmetric])
  have 2: "q * 0x40 + cp mod 0x40 = cp" unfolding q_def by simp
  have "q div 0x40 * 0x1000 + q mod 0x40 * 0x40 = q * 0x40"
    using div_mult_mod_eq [of q "0x40"] by linarith
  then have "q div 0x40 * 0x1000 + q mod 0x40 * 0x40 + cp mod 0x40 = cp"
    using 2 by simp
  then show ?thesis by (simp add: d q_def)
qed

lemma utf8_arith4:
  "(cp::nat) div 0x40000 * 0x40000 + cp div 0x1000 mod 0x40 * 0x1000
     + cp div 0x40 mod 0x40 * 0x40 + cp mod 0x40 = cp"
proof -
  define q where "q = cp div 0x1000"
  have d: "cp div 0x40000 = q div 0x40"
    unfolding q_def by (simp add: div_mult2_eq [symmetric])
  have 2: "q * 0x1000 + cp div 0x40 mod 0x40 * 0x40 + cp mod 0x40 = cp"
    using utf8_arith3 [of cp] by (simp add: q_def)
  have "q div 0x40 * 0x40000 + q mod 0x40 * 0x1000 = q * 0x1000"
    using div_mult_mod_eq [of q "0x40"] by linarith
  then have "q div 0x40 * 0x40000 + q mod 0x40 * 0x1000 + cp div 0x40 mod 0x40 * 0x40
      + cp mod 0x40 = cp"
    using 2 by simp
  then show ?thesis by (simp add: d q_def)
qed


lemma decode_literal:
  "c \<noteq> 0x25 \<Longrightarrow> decodeURIComponent (c # cs) = append_result [c] (decodeURIComponent cs)"
  by simp

lemma drop_two_more: "drop (2 + n) (a # b # rest) = drop n rest"
  by (simp add: numeral_2_eq_2)

lemma decode_escape:
  assumes "B < 256"
  shows "decodeURIComponent (percentEscape B @ rest) =
     (if leadingOnes B = 0 then append_result [of_nat B] (decodeURIComponent rest)
      else if leadingOnes B = 1 \<or> 4 < leadingOnes B then Inl URIError
      else (case continuationOctets (leadingOnes B - 1) rest of
              None \<Rightarrow> Inl URIError
            | Some octets \<Rightarrow>
                (case utf8_codepoint (B # octets) of
                   None \<Rightarrow> Inl URIError
                 | Some V \<Rightarrow>
                     append_result (UTF16EncodeCodePoint V)
                       (decodeURIComponent (drop (3 * (leadingOnes B - 1)) rest)))))"
  unfolding percentEscape_def
  by (simp add: ParseHexOctet_escape [OF assms] drop_two_more
      del: ParseHexOctet.simps cong: option.case_cong)

lemma continuationOctets_escapes:
  "\<forall>b\<in>set bs. b < 256 \<Longrightarrow>
   continuationOctets (length bs) (concat (map percentEscape bs) @ r) = Some bs"
proof (induction bs)
  case Nil
  then show ?case by simp
next
  case (Cons b bs)
  then have b: "b < 256" and ih: "continuationOctets (length bs) (concat (map percentEscape bs) @ r) = Some bs"
    by simp_all
  show ?case
    by (simp add: percentEscape_def ParseHexOctet_escape [OF b] ih [unfolded percentEscape_def]
        del: ParseHexOctet.simps)
qed

lemma drop_three_more: "drop (3 + n) (a # b # c # rest) = drop n rest"
  by (simp add: numeral_3_eq_3)

lemma drop_escapes: "drop (3 * length bs) (concat (map percentEscape bs) @ r) = r"
  by (induction bs) (simp_all add: percentEscape_def drop_three_more)

lemma decode_sequence:
  assumes "B < 256" and "\<forall>b\<in>set bs. b < 256" and "leadingOnes B = Suc (length bs)"
    and "bs \<noteq> []" and "length bs \<le> 3" and "utf8_codepoint (B # bs) = Some V"
  shows "decodeURIComponent (concat (map percentEscape (B # bs)) @ r) =
     append_result (UTF16EncodeCodePoint V) (decodeURIComponent r)"
proof -
  from assms(3,4,5) have n: "leadingOnes B \<noteq> 0" "leadingOnes B \<noteq> 1" "\<not> 4 < leadingOnes B"
    "leadingOnes B - 1 = length bs"
    by (cases bs; simp)+
  have "decodeURIComponent (percentEscape B @ (concat (map percentEscape bs) @ r)) =
     append_result (UTF16EncodeCodePoint V) (decodeURIComponent r)"
    by (simp only: decode_escape [OF assms(1)] n if_False simp_thms
        continuationOctets_escapes [OF assms(2)] option.case assms(6) drop_escapes)
  then show ?thesis by simp
qed


lemma utf8_two:
  assumes "0x80 \<le> cp" and "cp < 0x800"
  shows "utf8_octets cp = [0xC0 + cp div 0x40, 0x80 + cp mod 0x40]"
    and "0xC0 + cp div 0x40 < 256" and "0x80 + cp mod 0x40 < 256"
    and "leadingOnes (0xC0 + cp div 0x40) = 2"
    and "utf8_codepoint [0xC0 + cp div 0x40, 0x80 + cp mod 0x40] = Some cp"
proof -
  have d: "cp div 0x40 < 0x20" using assms by simp
  have m: "cp mod 0x40 < 0x40" by simp
  show "utf8_octets cp = [0xC0 + cp div 0x40, 0x80 + cp mod 0x40]"
    using assms by (simp add: utf8_octets_def)
  show "0xC0 + cp div 0x40 < 256" using d by simp
  show "0x80 + cp mod 0x40 < 256" using m by simp
  show "leadingOnes (0xC0 + cp div 0x40) = 2" using d by (simp add: leadingOnes_def)
  show "utf8_codepoint [0xC0 + cp div 0x40, 0x80 + cp mod 0x40] = Some cp"
    using assms m by (simp add: isContinuation_def)
qed

lemma utf8_three:
  assumes "0x800 \<le> cp" and "cp < 0x10000" and "\<not> (0xD800 \<le> cp \<and> cp \<le> 0xDFFF)"
  shows "utf8_octets cp = [0xE0 + cp div 0x1000, 0x80 + cp div 0x40 mod 0x40, 0x80 + cp mod 0x40]"
    and "0xE0 + cp div 0x1000 < 256" and "0x80 + cp div 0x40 mod 0x40 < 256"
    and "0x80 + cp mod 0x40 < 256"
    and "leadingOnes (0xE0 + cp div 0x1000) = 3"
    and "utf8_codepoint [0xE0 + cp div 0x1000, 0x80 + cp div 0x40 mod 0x40, 0x80 + cp mod 0x40]
           = Some cp"
proof -
  have d: "cp div 0x1000 < 0x10" using assms by simp
  have m1: "cp div 0x40 mod 0x40 < 0x40" and m: "cp mod 0x40 < 0x40" by simp_all
  show "utf8_octets cp = [0xE0 + cp div 0x1000, 0x80 + cp div 0x40 mod 0x40, 0x80 + cp mod 0x40]"
    using assms by (simp add: utf8_octets_def)
  show "0xE0 + cp div 0x1000 < 256" using d by simp
  show "0x80 + cp div 0x40 mod 0x40 < 256" using m1 by simp
  show "0x80 + cp mod 0x40 < 256" using m by simp
  show "leadingOnes (0xE0 + cp div 0x1000) = 3" using d by (simp add: leadingOnes_def)
  show "utf8_codepoint [0xE0 + cp div 0x1000, 0x80 + cp div 0x40 mod 0x40, 0x80 + cp mod 0x40]
           = Some cp"
    using assms m1 m by (simp add: isContinuation_def utf8_arith3)
qed

lemma utf8_four:
  assumes "0x10000 \<le> cp" and "cp < 0x110000"
  shows "utf8_octets cp =
      [0xF0 + cp div 0x40000, 0x80 + cp div 0x1000 mod 0x40, 0x80 + cp div 0x40 mod 0x40,
       0x80 + cp mod 0x40]"
    and "0xF0 + cp div 0x40000 < 256" and "0x80 + cp div 0x1000 mod 0x40 < 256"
    and "0x80 + cp div 0x40 mod 0x40 < 256" and "0x80 + cp mod 0x40 < 256"
    and "leadingOnes (0xF0 + cp div 0x40000) = 4"
    and "utf8_codepoint
      [0xF0 + cp div 0x40000, 0x80 + cp div 0x1000 mod 0x40, 0x80 + cp div 0x40 mod 0x40,
       0x80 + cp mod 0x40] = Some cp"
proof -
  have d: "cp div 0x40000 < 0x8" using assms by simp
  have m2: "cp div 0x1000 mod 0x40 < 0x40" and m1: "cp div 0x40 mod 0x40 < 0x40"
    and m: "cp mod 0x40 < 0x40" by simp_all
  show "utf8_octets cp =
      [0xF0 + cp div 0x40000, 0x80 + cp div 0x1000 mod 0x40, 0x80 + cp div 0x40 mod 0x40,
       0x80 + cp mod 0x40]"
    using assms by (simp add: utf8_octets_def)
  show "0xF0 + cp div 0x40000 < 256" using d by simp
  show "0x80 + cp div 0x1000 mod 0x40 < 256" using m2 by simp
  show "0x80 + cp div 0x40 mod 0x40 < 256" using m1 by simp
  show "0x80 + cp mod 0x40 < 256" using m by simp
  show "leadingOnes (0xF0 + cp div 0x40000) = 4" using d by (simp add: leadingOnes_def)
  show "utf8_codepoint
      [0xF0 + cp div 0x40000, 0x80 + cp div 0x1000 mod 0x40, 0x80 + cp div 0x40 mod 0x40,
       0x80 + cp mod 0x40] = Some cp"
    using assms m2 m1 m by (simp add: isContinuation_def utf8_arith4)
qed

lemma decode_escapeCodePoint:
  assumes "cp < 0x110000" and "\<not> (0xD800 \<le> cp \<and> cp \<le> 0xDFFF)"
  shows "decodeURIComponent (escapeCodePoint cp @ r) =
     append_result (UTF16EncodeCodePoint cp) (decodeURIComponent r)"
proof -
  consider "cp < 0x80" | "0x80 \<le> cp" "cp < 0x800" | "0x800 \<le> cp" "cp < 0x10000"
    | "0x10000 \<le> cp"
    by linarith
  then show ?thesis
  proof cases
    case 1
    then have "cp < 256" by simp
    from decode_escape [OF this, of r] 1 show ?thesis
      by (simp add: escapeCodePoint_def utf8_octets_def leadingOnes_def UTF16EncodeCodePoint_def)
  next
    case 2
    note f = utf8_two [OF 2]
    have "decodeURIComponent
        (concat (map percentEscape [0xC0 + cp div 0x40, 0x80 + cp mod 0x40]) @ r) =
      append_result (UTF16EncodeCodePoint cp) (decodeURIComponent r)"
      by (rule decode_sequence) (simp_all add: f del: utf8_codepoint.simps)
    then show ?thesis by (simp add: escapeCodePoint_def f(1))
  next
    case 3
    note f = utf8_three [OF 3 assms(2)]
    have "decodeURIComponent
        (concat (map percentEscape
           [0xE0 + cp div 0x1000, 0x80 + cp div 0x40 mod 0x40, 0x80 + cp mod 0x40]) @ r) =
      append_result (UTF16EncodeCodePoint cp) (decodeURIComponent r)"
      by (rule decode_sequence) (simp_all add: f del: utf8_codepoint.simps)
    then show ?thesis by (simp add: escapeCodePoint_def f(1))
  next
    case 4
    note f = utf8_four [OF 4 assms(1)]
    have "decodeURIComponent
        (concat (map percentEscape
           [0xF0 + cp div 0x40000, 0x80 + cp div 0x1000 mod 0x40, 0x80 + cp div 0x40 mod 0x40,
            0x80 + cp mod 0x40]) @ r) =
      append_result (UTF16EncodeCodePoint cp) (decodeURIComponent r)"
      by (rule decode_sequence) (simp_all add: f del: utf8_codepoint.simps)
    then show ?thesis by (simp add: escapeCodePoint_def f(1))
  qed
qed


lemma unat_code_unit: "unat (c :: 16 word) < 0x10000"
proof -
  have "unat c < 2 ^ LENGTH(16)" by (rule unsigned_less)
  then show ?thesis by simp
qed

lemma UTF16_single:
  assumes "\<not> isLeadSurrogate c" and "\<not> isTrailSurrogate c"
  shows "UTF16EncodeCodePoint (unat c) = [c]" and "unat c < 0x110000"
    and "\<not> (0xD800 \<le> unat c \<and> unat c \<le> 0xDFFF)"
proof -
  have b: "unat c < 0x10000" by (rule unat_code_unit)
  show "UTF16EncodeCodePoint (unat c) = [c]" using b by (simp add: UTF16EncodeCodePoint_def)
  show "unat c < 0x110000" using b by simp
  show "\<not> (0xD800 \<le> unat c \<and> unat c \<le> 0xDFFF)"
    using assms by (auto simp: isLeadSurrogate_def isTrailSurrogate_def)
qed

lemma UTF16_pair:
  assumes "isLeadSurrogate c" and "isTrailSurrogate d"
  shows "UTF16EncodeCodePoint (UTF16SurrogatePairToCodePoint c d) = [c, d]"
    and "UTF16SurrogatePairToCodePoint c d < 0x110000"
    and "0x10000 \<le> UTF16SurrogatePairToCodePoint c d"
proof -
  define h where "h = unat c - 0xD800"
  define l where "l = unat d - 0xDC00"
  have hc: "h + 0xD800 = unat c" and h: "h < 0x400"
    using assms(1) by (auto simp: h_def isLeadSurrogate_def)
  have ld: "l + 0xDC00 = unat d" and l: "l < 0x400"
    using assms(2) by (auto simp: l_def isTrailSurrogate_def)
  have cp: "UTF16SurrogatePairToCodePoint c d = h * 0x400 + l + 0x10000"
    by (simp add: UTF16SurrogatePairToCodePoint_def h_def l_def)
  have dv: "(h * 0x400 + l) div 0x400 = h" and md: "(h * 0x400 + l) mod 0x400 = l"
    using l by simp_all
  show "UTF16SurrogatePairToCodePoint c d < 0x110000" using h l by (simp add: cp)
  show "0x10000 \<le> UTF16SurrogatePairToCodePoint c d" by (simp add: cp)
  have "UTF16EncodeCodePoint (h * 0x400 + l + 0x10000) =
      [of_nat (h + 0xD800), of_nat (l + 0xDC00)]"
    using l by (simp add: UTF16EncodeCodePoint_def dv md)
  then show "UTF16EncodeCodePoint (UTF16SurrogatePairToCodePoint c d) = [c, d]"
    by (simp only: cp hc ld) simp
qed

lemma percent_escaped: "0x25 \<notin> uriUnescaped"
  by (simp add: uriUnescaped_def js_def)

lemma append_result_Inr:
  "append_result r m = Inr e \<longleftrightarrow> (\<exists>e'. m = Inr e' \<and> e = r @ e')"
  by (cases m) (auto simp: append_result_def)

lemma decode_encode:
  "encodeURIComponent s = Inr e \<Longrightarrow> decodeURIComponent e = Inr s"
proof (induction s arbitrary: e rule: encodeURIComponent.induct)
  case 1
  then show ?case by simp
next
  case (2 c cs)
  show ?case
  proof (cases "c \<in> uriUnescaped")
    case True
    with "2.prems" obtain e' where e': "encodeURIComponent cs = Inr e'" and e: "e = c # e'"
      by (auto simp: append_result_Inr)
    from True have "c \<noteq> 0x25" using percent_escaped by auto
    then show ?thesis
      using "2.IH"(1) [OF True e'] by (simp add: e decode_literal append_result_def)
  next
    case False
    show ?thesis
    proof (cases "\<not> isLeadSurrogate c \<and> \<not> isTrailSurrogate c")
      case True
      with False "2.prems" obtain e' where e': "encodeURIComponent cs = Inr e'"
        and e: "e = escapeCodePoint (unat c) @ e'"
        by (auto simp: append_result_Inr)
      from True have s: "\<not> isLeadSurrogate c" "\<not> isTrailSurrogate c" by simp_all
      show ?thesis
        using "2.IH"(2) [OF False True e']
        by (simp add: e decode_escapeCodePoint [OF UTF16_single(2,3) [OF s]]
            UTF16_single(1) [OF s] append_result_def)
    next
      case nonscalar: False
      with False "2.prems" have nt: "\<not> isTrailSurrogate c"
        by (auto split: if_splits)
      with nonscalar have lead: "isLeadSurrogate c" by simp
      from False nonscalar nt "2.prems" obtain d ds e' where cs: "cs = d # ds"
        and tr: "isTrailSurrogate d" and e': "encodeURIComponent ds = Inr e'"
        and e: "e = escapeCodePoint (UTF16SurrogatePairToCodePoint c d) @ e'"
        by (auto simp: append_result_Inr split: list.splits if_splits)
      have v: "\<not> (0xD800 \<le> UTF16SurrogatePairToCodePoint c d
                 \<and> UTF16SurrogatePairToCodePoint c d \<le> 0xDFFF)"
        using UTF16_pair(3) [OF lead tr] by simp
      have "decodeURIComponent e' = Inr ds"
        using "2.IH"(3) [OF False nonscalar nt cs _ e'] tr by simp
      then show ?thesis
        by (simp add: e cs decode_escapeCodePoint [OF UTF16_pair(2) [OF lead tr] v]
            UTF16_pair(1) [OF lead tr] append_result_def)
    qed
  qed
qed

lemma unescaped_not_surrogate:
  "c \<in> uriUnescaped \<Longrightarrow> \<not> isLeadSurrogate c \<and> \<not> isTrailSurrogate c"
  by (auto simp: uriUnescaped_def js_def isLeadSurrogate_def isTrailSurrogate_def)

lemma encode_total_on_wellFormed:
  "isWellFormed s \<longleftrightarrow> (\<exists>e. encodeURIComponent s = Inr e)"
proof (induction s rule: encodeURIComponent.induct)
  case 1
  then show ?case by simp
next
  case (2 c cs)
  show ?case
  proof (cases "c \<in> uriUnescaped")
    case True
    then show ?thesis
      using "2.IH"(1) [OF True] unescaped_not_surrogate [OF True]
      by (simp add: append_result_Inr)
  next
    case False
    show ?thesis
    proof (cases "\<not> isLeadSurrogate c \<and> \<not> isTrailSurrogate c")
      case True
      then show ?thesis
        using "2.IH"(2) [OF False True] False by (simp add: append_result_Inr)
    next
      case nonscalar: False
      show ?thesis
      proof (cases "isTrailSurrogate c")
        case True
        then show ?thesis
          using False by (auto simp: isLeadSurrogate_def isTrailSurrogate_def)
      next
        case nt: False
        with nonscalar have lead: "isLeadSurrogate c" by simp
        show ?thesis
        proof (cases cs)
          case Nil
          then show ?thesis using False nonscalar nt lead by simp
        next
          case (Cons d ds)
          show ?thesis
          proof (cases "isTrailSurrogate d")
            case True
            then show ?thesis
              using "2.IH"(3) [OF False nonscalar nt Cons] False nonscalar nt lead Cons
              by (simp add: append_result_Inr)
          next
            case False
            then show ?thesis using \<open>c \<notin> uriUnescaped\<close> nonscalar nt lead Cons by simp
          qed
        qed
      qed
    qed
  qed
qed

lemma splitOn_absent: "sep \<notin> set xs \<Longrightarrow> splitOn sep xs = [xs]"
  by (induction xs) auto

lemma hexDigit_safe: "d < 16 \<Longrightarrow> hexDigit d \<noteq> 0x26 \<and> hexDigit d \<noteq> 0x23"
  by (drule nat_lt_16_cases) (auto simp: hexDigit_def js_def)

lemma percentEscape_safe:
  "b < 256 \<Longrightarrow> 0x26 \<notin> set (percentEscape b) \<and> 0x23 \<notin> set (percentEscape b)"
proof -
  assume "b < 256"
  then have "b div 16 < 16" "b mod 16 < 16" by simp_all
  then show ?thesis
    using hexDigit_safe [of "b div 16"] hexDigit_safe [of "b mod 16"]
    by (auto simp: percentEscape_def)
qed

lemma mod_64_byte: "0x80 + (x::nat) mod 0x40 < 256"
  using mod_less_divisor [of "0x40" x] by linarith

lemma utf8_octets_bytes:
  assumes "cp < 0x110000"
  shows "\<forall>b\<in>set (utf8_octets cp). b < 256"
proof -
  consider "cp < 0x80" | "0x80 \<le> cp" "cp < 0x800" | "0x800 \<le> cp" "cp < 0x10000"
    | "0x10000 \<le> cp"
    by linarith
  then show ?thesis
  proof cases
    case 1
    then show ?thesis by (simp add: utf8_octets_def)
  next
    case 2
    have "cp div 0x40 < 0x20" using 2 by simp
    then show ?thesis using 2 by (simp add: utf8_octets_def mod_64_byte)
  next
    case 3
    have "cp div 0x1000 < 0x10" using 3 by simp
    then show ?thesis using 3 by (simp add: utf8_octets_def mod_64_byte)
  next
    case 4
    have "cp div 0x40000 < 0x8" using 4 assms by simp
    then show ?thesis using 4 by (simp add: utf8_octets_def mod_64_byte)
  qed
qed

lemma escapeCodePoint_safe:
  assumes "cp < 0x110000"
  shows "0x26 \<notin> set (escapeCodePoint cp) \<and> 0x23 \<notin> set (escapeCodePoint cp)"
  using utf8_octets_bytes [OF assms] percentEscape_safe
  by (auto simp: escapeCodePoint_def)

lemma unescaped_safe: "0x26 \<notin> uriUnescaped \<and> 0x23 \<notin> uriUnescaped"
  by (simp add: uriUnescaped_def js_def)

lemma encode_safe:
  "encodeURIComponent s = Inr e \<Longrightarrow> 0x26 \<notin> set e \<and> 0x23 \<notin> set e"
proof (induction s arbitrary: e rule: encodeURIComponent.induct)
  case 1
  then show ?case by simp
next
  case (2 c cs)
  show ?case
  proof (cases "c \<in> uriUnescaped")
    case True
    with "2.prems" obtain e' where e': "encodeURIComponent cs = Inr e'" and e: "e = c # e'"
      by (auto simp: append_result_Inr)
    from True unescaped_safe have "c \<noteq> 0x26" "c \<noteq> 0x23" by auto
    then show ?thesis using "2.IH"(1) [OF True e'] by (simp add: e)
  next
    case False
    show ?thesis
    proof (cases "\<not> isLeadSurrogate c \<and> \<not> isTrailSurrogate c")
      case True
      with False "2.prems" obtain e' where e': "encodeURIComponent cs = Inr e'"
        and e: "e = escapeCodePoint (unat c) @ e'"
        by (auto simp: append_result_Inr)
      from True have s: "\<not> isLeadSurrogate c" "\<not> isTrailSurrogate c" by simp_all
      show ?thesis
        using "2.IH"(2) [OF False True e'] escapeCodePoint_safe [OF UTF16_single(2) [OF s]]
        by (simp add: e)
    next
      case nonscalar: False
      with False "2.prems" have nt: "\<not> isTrailSurrogate c"
        by (auto split: if_splits)
      with nonscalar have lead: "isLeadSurrogate c" by simp
      from False nonscalar nt "2.prems" obtain d ds e' where cs: "cs = d # ds"
        and tr: "isTrailSurrogate d" and e': "encodeURIComponent ds = Inr e'"
        and e: "e = escapeCodePoint (UTF16SurrogatePairToCodePoint c d) @ e'"
        by (auto simp: append_result_Inr split: list.splits if_splits)
      have "0x26 \<notin> set e' \<and> 0x23 \<notin> set e'"
        using "2.IH"(3) [OF False nonscalar nt cs _ e'] tr by simp
      then show ?thesis
        using escapeCodePoint_safe [OF UTF16_pair(2) [OF lead tr]] by (simp add: e)
    qed
  qed
qed

lemma searchParam_share_url:
  assumes "0x26 \<notin> set e" and "0x23 \<notin> set e"
  shows "searchParam (js ''share_url'') (DASHBOARD_URL @ js ''?share_url='' @ e) = Some e"
proof -
  have 1: "drop 1 (dropWhile (\<lambda>c. c \<noteq> 0x3F) (DASHBOARD_URL @ js ''?share_url='' @ e))
      = js ''share_url='' @ e"
    by (simp add: DASHBOARD_URL_def APP_ORIGIN_def js_def)
  have 2: "takeWhile (\<lambda>c. c \<noteq> 0x23) (js ''share_url='' @ e) = js ''share_url='' @ e"
    using assms(2) by (auto simp: js_def)
  have 3: "splitOn 0x26 (js ''share_url='' @ e) = [js ''share_url='' @ e]"
    by (rule splitOn_absent) (use assms(1) in \<open>auto simp: js_def\<close>)
  have 4: "takeWhile (\<lambda>c. c \<noteq> 0x3D) (js ''share_url='' @ e) = js ''share_url''"
    and 5: "drop 1 (dropWhile (\<lambda>c. c \<noteq> 0x3D) (js ''share_url='' @ e)) = e"
    by (simp_all add: js_def)
  show ?thesis
    unfolding searchParam_def using 4 5 by (simp only: 1 2 3) simp
qed

section \<open>The two branches\<close>

lemma query_pattern: "APP_ORIGIN @ js ''/*'' = js ''https://aegis-e31n.onrender.com/*''"
  by (simp add: APP_ORIGIN_def js_def)

lemma share_address:
  "DASHBOARD_URL @ js ''?share_url='' @ enc =
   js ''https://aegis-e31n.onrender.com/dashboard/social?share_url='' @ enc"
  by (simp add: DASHBOARD_URL_def APP_ORIGIN_def js_def)

lemma handle_shareable_trace:
  assumes "\<not> nonShareable t" and "url t = Some u"
  shows "fst (handleShareAction P t) =
     ScriptingExecuteScript (tab_id t) clipboardWriteText u #
     (case executeScript P (tab_id t) clipboardWriteText u of
        None \<Rightarrow> ConsoleLog ''Aegis Quick Share: URL copied to clipboard''
      | Some e \<Rightarrow> ConsoleError ''Aegis Quick Share: Failed to copy to clipboard'' e) #
     fst (shareFlow P u) @
     (case snd (shareFlow P u) of
        Inl e \<Rightarrow> [ConsoleError ''Aegis Quick Share: Error during share action'' e]
      | Inr x \<Rightarrow> [])"
  by (simp add: handle_shareable [OF assms] copyToClipboard_run)

lemma shareFlow_existing:
  assumes "tabs_query P (js ''https://aegis-e31n.onrender.com/*'') = Inr (a # as)"
  shows "shareFlow P u =
     (TabsQuery (js ''https://aegis-e31n.onrender.com/*'') # fst (focusAndDispatch P u (a # as)),
      snd (focusAndDispatch P u (a # as)))"
  using assms by (simp add: shareFlow_run query_pattern)

lemma shareFlow_none:
  assumes "tabs_query P (js ''https://aegis-e31n.onrender.com/*'') = Inr []"
  shows "shareFlow P u =
     (TabsQuery (js ''https://aegis-e31n.onrender.com/*'') # fst (openNewTab P u),
      snd (openNewTab P u))"
  using assms by (simp add: shareFlow_run query_pattern)

lemma shareFlow_query_fails:
  assumes "tabs_query P (js ''https://aegis-e31n.onrender.com/*'') = Inl e"
  shows "shareFlow P u = ([TabsQuery (js ''https://aegis-e31n.onrender.com/*'')], Inl e)"
  using assms by (simp add: shareFlow_run query_pattern)

lemma existing_branch_trace:
  assumes "\<not> nonShareable t" and "url t = Some u"
    and "tabs_query P (js ''https://aegis-e31n.onrender.com/*'') = Inr (a # as)"
  shows "fst (handleShareAction P t) =
     [ScriptingExecuteScript (tab_id t) clipboardWriteText u,
      (case executeScript P (tab_id t) clipboardWriteText u of
         None \<Rightarrow> ConsoleLog ''Aegis Quick Share: URL copied to clipboard''
       | Some e \<Rightarrow> ConsoleError ''Aegis Quick Share: Failed to copy to clipboard'' e),
      TabsQuery (js ''https://aegis-e31n.onrender.com/*'')] @
     (case tabs_update P (tab_id a) of
        Some e \<Rightarrow>
          [TabsUpdate (tab_id a),
           ConsoleError ''Aegis Quick Share: Error during share action'' e]
      | None \<Rightarrow>
         (case windows_update P (windowId a) of
            Some e \<Rightarrow>
              [TabsUpdate (tab_id a), WindowsUpdate (windowId a),
               ConsoleError ''Aegis Quick Share: Error during share action'' e]
          | None \<Rightarrow>
             (case executeScript P (tab_id a) dispatchShareIntentFunc u of
                Some e \<Rightarrow>
                  [TabsUpdate (tab_id a), WindowsUpdate (windowId a),
                   ScriptingExecuteScript (tab_id a) dispatchShareIntentFunc u,
                   ConsoleError ''Aegis Quick Share: Error during share action'' e]
              | None \<Rightarrow>
                  [TabsUpdate (tab_id a), WindowsUpdate (windowId a),
                   ScriptingExecuteScript (tab_id a) dispatchShareIntentFunc u,
                   ConsoleLog ''Aegis Quick Share: Dispatched share intent to existing tab''])))"
  by (simp add: handle_shareable_trace [OF assms(1,2)] shareFlow_existing [OF assms(3)]
      focusAndDispatch_run split: option.splits)

lemma new_tab_branch_trace:
  assumes "\<not> nonShareable t" and "url t = Some u"
    and "tabs_query P (js ''https://aegis-e31n.onrender.com/*'') = Inr []"
  shows "fst (handleShareAction P t) =
     [ScriptingExecuteScript (tab_id t) clipboardWriteText u,
      (case executeScript P (tab_id t) clipboardWriteText u of
         None \<Rightarrow> ConsoleLog ''Aegis Quick Share: URL copied to clipboard''
       | Some e \<Rightarrow> ConsoleError ''Aegis Quick Share: Failed to copy to clipboard'' e),
      TabsQuery (js ''https://aegis-e31n.onrender.com/*'')] @
     (case encodeURIComponent u of
        Inl e \<Rightarrow> [ConsoleError ''Aegis Quick Share: Error during share action'' e]
      | Inr enc \<Rightarrow>
         (case tabs_create P
                 (js ''https://aegis-e31n.onrender.com/dashboard/social?share_url='' @ enc) of
            Some e \<Rightarrow>
              [TabsCreate
                 (js ''https://aegis-e31n.onrender.com/dashboard/social?share_url='' @ enc),
               ConsoleError ''Aegis Quick Share: Error during share action'' e]
          | None \<Rightarrow>
              [TabsCreate
                 (js ''https://aegis-e31n.onrender.com/dashboard/social?share_url='' @ enc),
               ConsoleLog ''Aegis Quick Share: Opened new Aegis tab with share URL'']))"
  by (simp add: handle_shareable_trace [OF assms(1,2)] shareFlow_none [OF assms(3)]
      openNewTab_run share_address split: option.splits sum.splits)

lemma query_failed_trace:
  assumes "\<not> nonShareable t" and "url t = Some u"
    and "tabs_query P (js ''https://aegis-e31n.onrender.com/*'') = Inl e"
  shows "fst (handleShareAction P t) =
     [ScriptingExecuteScript (tab_id t) clipboardWriteText u,
      (case executeScript P (tab_id t) clipboardWriteText u of
         None \<Rightarrow> ConsoleLog ''Aegis Quick Share: URL copied to clipboard''
       | Some e \<Rightarrow> ConsoleError ''Aegis Quick Share: Failed to copy to clipboard'' e),
      TabsQuery (js ''https://aegis-e31n.onrender.com/*'')] @
     [ConsoleError ''Aegis Quick Share: Error during share action'' e]"
  by (simp add: handle_shareable_trace [OF assms(1,2)] shareFlow_query_fails [OF assms(3)])

lemma shareable_run:
  assumes "\<not> nonShareable t" and "url t = Some u"
  shows "fst (handleShareAction P t) =
     [ScriptingExecuteScript (tab_id t) clipboardWriteText u,
      (case executeScript P (tab_id t) clipboardWriteText u of
         None \<Rightarrow> ConsoleLog ''Aegis Quick Share: URL copied to clipboard''
       | Some e \<Rightarrow> ConsoleError ''Aegis Quick Share: Failed to copy to clipboard'' e),
      TabsQuery (js ''https://aegis-e31n.onrender.com/*'')] @
     (case tabs_query P (js ''https://aegis-e31n.onrender.com/*'') of
        Inl e \<Rightarrow> [ConsoleError ''Aegis Quick Share: Error during share action'' e]
      | Inr [] \<Rightarrow>
         (case encodeURIComponent u of
            Inl e \<Rightarrow> [ConsoleError ''Aegis Quick Share: Error during share action'' e]
          | Inr enc \<Rightarrow>
             (case tabs_create P
                     (js ''https://aegis-e31n.onrender.com/dashboard/social?share_url='' @ enc) of
                Some e \<Rightarrow>
                  [TabsCreate
                     (js ''https://aegis-e31n.onrender.com/dashboard/social?share_url='' @ enc),
                   ConsoleError ''Aegis Quick Share: Error during share action'' e]
              | None \<Rightarrow>
                  [TabsCreate
                     (js ''https://aegis-e31n.onrender.com/dashboard/social?share_url='' @ enc),
                   ConsoleLog ''Aegis Quick Share: Opened new Aegis tab with share URL'']))
      | Inr (a # as) \<Rightarrow>
         (case tabs_update P (tab_id a) of
            Some e \<Rightarrow>
              [TabsUpdate (tab_id a),
               ConsoleError ''Aegis Quick Share: Error during share action'' e]
          | None \<Rightarrow>
             (case windows_update P (windowId a) of
                Some e \<Rightarrow>
                  [TabsUpdate (tab_id a), WindowsUpdate (windowId a),
                   ConsoleError ''Aegis Quick Share: Error during share action'' e]
              | None \<Rightarrow>
                 (case executeScript P (tab_id a) dispatchShareIntentFunc u of
                    Some e \<Rightarrow>
                      [TabsUpdate (tab_id a), WindowsUpdate (windowId a),
                       ScriptingExecuteScript (tab_id a) dispatchShareIntentFunc u,
                       ConsoleError ''Aegis Quick Share: Error during share action'' e]
                  | None \<Rightarrow>
                      [TabsUpdate (tab_id a), WindowsUpdate (windowId a),
                       ScriptingExecuteScript (tab_id a) dispatchShareIntentFunc u,
                       ConsoleLog
                         ''Aegis Quick Share: Dispatched share intent to existing tab'']))))"
proof (cases "tabs_query P (js ''https://aegis-e31n.onrender.com/*'')")
  case (Inl e)
  show ?thesis
    by (simp only: query_failed_trace [OF assms Inl] Inl sum.case)
next
  case (Inr tabs)
  show ?thesis
  proof (cases tabs)
    case Nil
    with Inr have q: "tabs_query P (js ''https://aegis-e31n.onrender.com/*'') = Inr []"
      by simp
    show ?thesis
      by (simp only: new_tab_branch_trace [OF assms q] q sum.case list.case)
  next
    case (Cons a as)
    with Inr have q: "tabs_query P (js ''https://aegis-e31n.onrender.com/*'') = Inr (a # as)"
      by simp
    show ?thesis
      by (simp only: existing_branch_trace [OF assms q] q sum.case list.case)
  qed
qed

lemma example_encoding:
  "encodeURIComponent (js ''https://example.com/a?x=1&y=2'') =
   Inr (js ''https%3A%2F%2Fexample.com%2Fa%3Fx%3D1%26y%3D2'')"
  by (simp add: js_def uriUnescaped_def append_result_def escapeCodePoint_def utf8_octets_def
      percentEscape_def hexDigit_def isLeadSurrogate_def isTrailSurrogate_def)

lemma example_shareable: "\<not> nonShareable (page_tab (js ''https://example.com/a?x=1&y=2''))"
  by (simp add: nonShareable_def page_tab_def js_def)

lemma example_wellFormed: "isWellFormed (js ''https://example.com/a?x=1&y=2'')"
  by (simp add: js_def isLeadSurrogate_def isTrailSurrogate_def)

section \<open>Runs of the dispatcher\<close>

lemma injectedRun_eq:
  "injectedRun u elapsed pg =
     (if 100 \<le> elapsed then
        (WindowDispatchCustomEvent (js ''AEGIS_SHARE_INTENT'') [(js ''url'', u)]
           # fst (timeoutCallback u pg),
         fst (snd (timeoutCallback u pg)),
         (case snd (snd (timeoutCallback u pg)) of None \<Rightarrow> [] | Some e \<Rightarrow> [e]))
      else ([WindowDispatchCustomEvent (js ''AEGIS_SHARE_INTENT'') [(js ''url'', u)]], pg, []))"
  by (simp add: injectedRun_def dispatchShareIntent_def split_beta)




lemma timeoutCallback_input:
  "activeElement pg = Some el \<Longrightarrow> tagName el = js ''INPUT'' \<Longrightarrow>
   timeoutCallback u pg =
     (case inputValueSetter (valueSanitization pg) (input_type el) u of
        Inl e \<Rightarrow> ([NativeValueSet HTMLInputElement_prototype u], pg, Some e)
      | Inr stored \<Rightarrow>
          ([NativeValueSet HTMLInputElement_prototype u,
            ActiveElementDispatchEvent (js ''input'') True],
           pg\<lparr>activeElement := Some (el\<lparr>element_value := stored\<rparr>)\<rparr>, None))"
  by (simp add: timeoutCallback_def nativeValueSetter_def split: sum.splits)

lemma timeoutCallback_no_custom: "filter isCustomEvent (fst (timeoutCallback u pg)) = []"
  by (simp add: timeoutCallback_def pasteFallback_def nativeValueSetter_def Let_def
      split: option.splits sum.splits prototype.splits)







lemma page_focused_fields:
  "activeElement (page_focused el) = Some el"
  "valueSanitization (page_focused el) = (\<lambda>ty v. [])"
  by (simp_all add: page_focused_def)


lemma file_input_aborts_callback:
  "injectedRun (js ''https://example.com/'') 100 (page_focused file_element) =
     ([WindowDispatchCustomEvent (js ''AEGIS_SHARE_INTENT'') [(js ''url'', js ''https://example.com/'')],
       NativeValueSet HTMLInputElement_prototype (js ''https://example.com/'')],
      page_focused file_element, [InvalidStateError])"
proof -
  have t: "tagName file_element = js ''INPUT''" and ty: "input_type file_element = type_file"
    by (simp_all add: file_element_def)
  have n: "js ''https://example.com/'' \<noteq> []" by (simp add: js_def)
  show ?thesis
    by (simp add: injectedRun_eq timeoutCallback_input [OF page_focused_fields(1) t] ty n)
qed

lemma number_input_is_cleared:
  "activeElement (fst (snd (injectedRun (js ''https://example.com/'') 100
      (page_focused number_element)))) = Some (number_element\<lparr>element_value := []\<rparr>)"
proof -
  have t: "tagName number_element = js ''INPUT''" and ty: "input_type number_element = type_number"
    by (simp_all add: number_element_def)
  have n: "\<not> validFloatingPointNumber (js ''https://example.com/'')"
    by (simp add: validFloatingPointNumber_def isAsciiDigit_def js_def)
  show ?thesis
    by (simp add: injectedRun_eq timeoutCallback_input [OF page_focused_fields(1) t] ty n)
qed

section \<open>Example browsers and addresses\<close>

lemma browser_calls:
  "executeScript (browser tabs) i f x = None"
  "tabs_query (browser tabs) p = Inr tabs"
  "tabs_update (browser tabs) i = None"
  "windows_update (browser tabs) w = None"
  "tabs_create (browser tabs) x = None"
  by (simp_all add: browser_def)

lemma browser_clipboard_denied_calls:
  "executeScript (browser_clipboard_denied tabs) i clipboardWriteText x = Some (Rejected 1)"
  "executeScript (browser_clipboard_denied tabs) i dispatchShareIntentFunc x = None"
  "tabs_query (browser_clipboard_denied tabs) p = Inr tabs"
  "tabs_update (browser_clipboard_denied tabs) i = None"
  "windows_update (browser_clipboard_denied tabs) w = None"
  "tabs_create (browser_clipboard_denied tabs) x = None"
  by (simp_all add: browser_clipboard_denied_def browser_def)

lemma browser_activation_fails_calls:
  "executeScript (browser_activation_fails tabs) i f x = None"
  "tabs_query (browser_activation_fails tabs) p = Inr tabs"
  "tabs_update (browser_activation_fails tabs) i = Some (Rejected 2)"
  "windows_update (browser_activation_fails tabs) w = None"
  "tabs_create (browser_activation_fails tabs) x = None"
  by (simp_all add: browser_activation_fails_def browser_def)

lemma browser_focus_fails_calls:
  "executeScript (browser_focus_fails tabs) i f x = None"
  "tabs_query (browser_focus_fails tabs) p = Inr tabs"
  "tabs_update (browser_focus_fails tabs) i = None"
  "windows_update (browser_focus_fails tabs) w = Some (Rejected 3)"
  "tabs_create (browser_focus_fails tabs) x = None"
  by (simp_all add: browser_focus_fails_def browser_def)

lemma browser_query_fails_calls:
  "executeScript browser_query_fails i f x = None"
  "tabs_query browser_query_fails p = Inl (Rejected 4)"
  by (simp_all add: browser_query_fails_def browser_def)

lemma page_tab_fields: "tab_id (page_tab u) = Some 7" "url (page_tab u) = Some u"
  by (simp_all add: page_tab_def)

lemma aegis_tab_fields: "tab_id (aegis_tab i) = Some i" "windowId (aegis_tab i) = 100 + i"
  by (simp_all add: aegis_tab_def)

lemma handle_never_throws: "snd (handleShareAction P t) = Inr ()"
proof (cases "nonShareable t")
  case True
  then show ?thesis by (simp add: handle_nonShareable)
next
  case False
  then obtain u where "url t = Some u" by (auto simp: nonShareable_def split: option.splits)
  with False show ?thesis by (simp add: handle_shareable)
qed

lemma nonShareable_iff:
  "nonShareable t \<longleftrightarrow>
     url t = None \<or> url t = Some []
     \<or> (\<exists>u. url t = Some u \<and> (prefix (js ''chrome://'') u \<or> prefix (js ''chrome-extension://'') u))"
  by (auto simp: nonShareable_def split: option.splits)

lemma simple_shareable: "\<not> nonShareable (page_tab (js ''https://example.com/''))"
  by (simp add: nonShareable_def page_tab_def js_def)

lemma browser_write_denied_calls:
  "executeScript (browser_write_denied tabs) i f x = None"
  "tabs_query (browser_write_denied tabs) p = Inr tabs"
  "tabs_update (browser_write_denied tabs) i = None"
  "windows_update (browser_write_denied tabs) w = None"
  "tabs_create (browser_write_denied tabs) x = None"
  by (simp_all add: browser_write_denied_def browser_def injectionOutcome_def
      clipboardWriteFunc_def)

lemma ascii_not_surrogate:
  "unat c < 0x80 \<Longrightarrow> \<not> isLeadSurrogate c \<and> \<not> isTrailSurrogate c"
  by (simp add: isLeadSurrogate_def isTrailSurrogate_def)

lemma ascii_isWellFormed: "list_all (\<lambda>c. unat c < 0x80) u \<Longrightarrow> isWellFormed u"
  by (induction u) (simp_all add: ascii_not_surrogate)

lemma created_tab_address:
  assumes "url t = Some u" and "TabsCreate a \<in> set (fst (handleShareAction P t))"
  shows "\<exists>enc. encodeURIComponent u = Inr enc \<and> a = DASHBOARD_URL @ js ''?share_url='' @ enc"
proof (cases "nonShareable t")
  case True
  then show ?thesis using assms(2) by (simp add: handle_nonShareable)
next
  case False
  from assms(2) show ?thesis
    by (auto simp: handle_shareable_trace [OF False assms(1)] shareFlow_run
        focusAndDispatch_run openNewTab_run
        split: sum.splits list.splits option.splits)
qed

lemma decodedShareUrl_created:
  assumes "encodeURIComponent u = Inr enc"
  shows "decodedShareUrl (DASHBOARD_URL @ js ''?share_url='' @ enc) = Some u"
  using encode_safe [OF assms] decode_encode [OF assms]
  by (simp add: decodedShareUrl_def searchParam_share_url)

lemma about_blank_encoding:
  "encodeURIComponent (js ''about:blank'') = Inr (js ''about%3Ablank'')"
  by (simp add: js_def uriUnescaped_def append_result_def escapeCodePoint_def utf8_octets_def
      percentEscape_def hexDigit_def isLeadSurrogate_def isTrailSurrogate_def)

lemma edge_settings_encoding:
  "encodeURIComponent (js ''edge://settings/'') = Inr (js ''edge%3A%2F%2Fsettings%2F'')"
  by (simp add: js_def uriUnescaped_def append_result_def escapeCodePoint_def utf8_octets_def
      percentEscape_def hexDigit_def isLeadSurrogate_def isTrailSurrogate_def)

lemma simple_encoding:
  "encodeURIComponent (js ''https://example.com/'') = Inr (js ''https%3A%2F%2Fexample.com%2F'')"
  by (simp add: js_def uriUnescaped_def append_result_def escapeCodePoint_def utf8_octets_def
      percentEscape_def hexDigit_def isLeadSurrogate_def isTrailSurrogate_def)

lemma about_blank_shareable: "\<not> nonShareable (page_tab (js ''about:blank''))"
  by (simp add: nonShareable_def page_tab_def js_def)

lemma edge_settings_shareable: "\<not> nonShareable (page_tab (js ''edge://settings/''))"
  by (simp add: nonShareable_def page_tab_def js_def)

lemma share_address_concat: "js a @ js b = js (a @ b)"
  by (simp add: js_def)

lemma chrome_caps_shareable: "\<not> nonShareable (page_tab (js ''Chrome://extensions/''))"
  by (simp add: nonShareable_def page_tab_def js_def)

lemma extension_page_rejected:
  "prefix (js ''chrome-extension://'') (js ''chrome-extension://abcdef/popup.html'')"
  by (simp add: js_def)

text \<open>
  What the two \<open>catch\<close> clauses do: a rejected clipboard injection is logged by
  \<open>copyToClipboard\<close> and the \<open>try\<close> region still runs; an error that ends the \<open>try\<close>
  region is logged by the top-level handler; the handler ends normally in every case.
\<close>

lemma awaited_failures_are_logged:
  "snd (handleShareAction P t) = Inr ()
   \<and> snd (copyToClipboard P text i) = Inr ()
   \<and> (\<not> nonShareable t \<and> url t = Some u
        \<and> executeScript P (tab_id t) clipboardWriteText u = Some e \<longrightarrow>
        (\<exists>rest. fst (handleShareAction P t) =
           ScriptingExecuteScript (tab_id t) clipboardWriteText u #
           ConsoleError ''Aegis Quick Share: Failed to copy to clipboard'' e #
           fst (shareFlow P u) @ rest)
        \<and> hd (fst (shareFlow P u)) = TabsQuery (js ''https://aegis-e31n.onrender.com/*''))
   \<and> (\<not> nonShareable t \<and> url t = Some u \<and> snd (shareFlow P u) = Inl e' \<longrightarrow>
        last (fst (handleShareAction P t)) =
          ConsoleError ''Aegis Quick Share: Error during share action'' e')"
proof -
  have 1: "snd (handleShareAction P t) = Inr ()" by (rule handle_never_throws)
  have 2: "snd (copyToClipboard P text i) = Inr ()" by (simp add: copyToClipboard_run)
  have 3: "(\<exists>rest. fst (handleShareAction P t) =
           ScriptingExecuteScript (tab_id t) clipboardWriteText u #
           ConsoleError ''Aegis Quick Share: Failed to copy to clipboard'' e #
           fst (shareFlow P u) @ rest)
        \<and> hd (fst (shareFlow P u)) = TabsQuery (js ''https://aegis-e31n.onrender.com/*'')"
    if "\<not> nonShareable t" "url t = Some u"
      "executeScript P (tab_id t) clipboardWriteText u = Some e"
  proof -
    have "hd (fst (shareFlow P u)) = TabsQuery (js ''https://aegis-e31n.onrender.com/*'')"
      by (subst shareFlow_starts_with_query) (simp add: query_pattern)
    then show ?thesis
      by (simp add: handle_shareable_trace [OF that(1,2)] that(3))
  qed
  have 4: "last (fst (handleShareAction P t)) =
          ConsoleError ''Aegis Quick Share: Error during share action'' e'"
    if "\<not> nonShareable t" "url t = Some u" "snd (shareFlow P u) = Inl e'"
    by (simp add: handle_shareable_trace [OF that(1,2)] that(3))
  from 1 2 3 4 show ?thesis by blast
qed

section \<open>The claims\<close>

text \<open>
  C1. The address of a tab is a serialised URL: ASCII, and so a well-formed string, with
  no unpaired surrogate (\<open>ascii_isWellFormed\<close>). For every shareable address, when the
  query for companion tabs returns no tab, the run holds exactly one
  \<open>chrome.tabs.create\<close>, for the address
  \<open>https://aegis-e31n.onrender.com/dashboard/social?share_url=\<close> followed by the
  percent-encoded address, and no dispatcher injection. The address
  \<open>https://example.com/a?x=1&y=2\<close> is encoded as
  \<open>https%3A%2F%2Fexample.com%2Fa%3Fx%3D1%26y%3D2\<close>.
\<close>

theorem no_companion_opens_one_tab:
  assumes "\<not> nonShareable t" and "url t = Some u" and "isWellFormed u"
    and "tabs_query P (js ''https://aegis-e31n.onrender.com/*'') = Inr []"
  shows "(\<exists>enc. encodeURIComponent u = Inr enc
       \<and> filter isTabsCreate (fst (handleShareAction P t)) =
           [TabsCreate (js ''https://aegis-e31n.onrender.com/dashboard/social?share_url='' @ enc)])
     \<and> filter isDispatcherInjection (fst (handleShareAction P t)) = []
     \<and> encodeURIComponent (js ''https://example.com/a?x=1&y=2'') =
         Inr (js ''https%3A%2F%2Fexample.com%2Fa%3Fx%3D1%26y%3D2'')"
proof -
  from assms(3) obtain enc where enc: "encodeURIComponent u = Inr enc"
    using encode_total_on_wellFormed [of u] by blast
  have "filter isTabsCreate (fst (handleShareAction P t)) =
      [TabsCreate (js ''https://aegis-e31n.onrender.com/dashboard/social?share_url='' @ enc)]"
    by (simp add: new_tab_branch_trace [OF assms(1,2,4)] enc split: option.splits)
  moreover have "filter isDispatcherInjection (fst (handleShareAction P t)) = []"
    by (simp add: new_tab_branch_trace [OF assms(1,2,4)] enc split: option.splits)
  ultimately show ?thesis using enc example_encoding by blast
qed

text \<open>
  C1 at the address of the example, in a browser with no companion tab.
\<close>

theorem no_companion_opens_one_tab_witness:
  "\<not> nonShareable (page_tab (js ''https://example.com/a?x=1&y=2''))
   \<and> url (page_tab (js ''https://example.com/a?x=1&y=2'')) = Some (js ''https://example.com/a?x=1&y=2'')
   \<and> isWellFormed (js ''https://example.com/a?x=1&y=2'')
   \<and> tabs_query (browser []) (js ''https://aegis-e31n.onrender.com/*'') = Inr []
   \<and> filter isTabsCreate
        (fst (handleShareAction (browser []) (page_tab (js ''https://example.com/a?x=1&y=2'')))) =
       [TabsCreate (js ''https://aegis-e31n.onrender.com/dashboard/social?share_url=https%3A%2F%2Fexample.com%2Fa%3Fx%3D1%26y%3D2'')]
   \<and> filter isDispatcherInjection
        (fst (handleShareAction (browser []) (page_tab (js ''https://example.com/a?x=1&y=2'')))) = []"
proof -
  have q: "tabs_query (browser []) (js ''https://aegis-e31n.onrender.com/*'') = Inr []"
    by (simp add: browser_calls)
  have a: "js ''https://aegis-e31n.onrender.com/dashboard/social?share_url=''
       @ js ''https%3A%2F%2Fexample.com%2Fa%3Fx%3D1%26y%3D2'' =
     js ''https://aegis-e31n.onrender.com/dashboard/social?share_url=https%3A%2F%2Fexample.com%2Fa%3Fx%3D1%26y%3D2''"
    by (simp add: js_def)
  from no_companion_opens_one_tab [OF example_shareable page_tab_fields(2) example_wellFormed q]
  have "filter isTabsCreate
        (fst (handleShareAction (browser []) (page_tab (js ''https://example.com/a?x=1&y=2'')))) =
       [TabsCreate (js ''https://aegis-e31n.onrender.com/dashboard/social?share_url=https%3A%2F%2Fexample.com%2Fa%3Fx%3D1%26y%3D2'')]"
    and "filter isDispatcherInjection
        (fst (handleShareAction (browser []) (page_tab (js ''https://example.com/a?x=1&y=2'')))) = []"
    by (auto simp: a [symmetric])
  with example_shareable page_tab_fields(2) example_wellFormed q show ?thesis by blast
qed

text \<open>
  C2, as stated, fails when the browser rejects the tab activation: a companion tab is
  found, \<open>chrome.tabs.update\<close> rejects, control goes to the \<open>catch\<close>, and neither the
  window focus nor the dispatcher injection is issued.
\<close>

theorem failed_activation_skips_injection:
  "\<not> nonShareable (page_tab (js ''https://example.com/''))
   \<and> tabs_query (browser_activation_fails [aegis_tab 3]) (js ''https://aegis-e31n.onrender.com/*'')
       = Inr [aegis_tab 3]
   \<and> fst (handleShareAction (browser_activation_fails [aegis_tab 3])
            (page_tab (js ''https://example.com/''))) =
       [ScriptingExecuteScript (Some 7) clipboardWriteText (js ''https://example.com/''),
        ConsoleLog ''Aegis Quick Share: URL copied to clipboard'',
        TabsQuery (js ''https://aegis-e31n.onrender.com/*''),
        TabsUpdate (Some 3),
        ConsoleError ''Aegis Quick Share: Error during share action'' (Rejected 2)]
   \<and> filter isDispatcherInjection
        (fst (handleShareAction (browser_activation_fails [aegis_tab 3])
                (page_tab (js ''https://example.com/'')))) = []"
proof -
  have q: "tabs_query (browser_activation_fails [aegis_tab 3])
      (js ''https://aegis-e31n.onrender.com/*'') = Inr [aegis_tab 3]"
    by (simp add: browser_activation_fails_calls)
  have tr: "fst (handleShareAction (browser_activation_fails [aegis_tab 3])
            (page_tab (js ''https://example.com/''))) =
       [ScriptingExecuteScript (Some 7) clipboardWriteText (js ''https://example.com/''),
        ConsoleLog ''Aegis Quick Share: URL copied to clipboard'',
        TabsQuery (js ''https://aegis-e31n.onrender.com/*''),
        TabsUpdate (Some 3),
        ConsoleError ''Aegis Quick Share: Error during share action'' (Rejected 2)]"
    by (simp add: existing_branch_trace [OF simple_shareable page_tab_fields(2) q]
        browser_activation_fails_calls page_tab_fields aegis_tab_fields)
  show ?thesis
    by (simp only: tr q simple_shareable) simp
qed

text \<open>
  C2, amended. For every shareable address, when the query returns one or more tabs, the
  run issues no \<open>chrome.tabs.create\<close> and exactly one activation, of the first tab in
  query order; if the activation resolves, exactly one window focus, of that tab's
  window; if that resolves too, exactly one dispatcher injection, into that tab, with the
  original, unencoded address. There is never more than one injection.
\<close>

theorem companion_found_focus_then_inject:
  assumes "\<not> nonShareable t" and "url t = Some u"
    and "tabs_query P (js ''https://aegis-e31n.onrender.com/*'') = Inr (a # as)"
  shows "filter isTabsCreate (fst (handleShareAction P t)) = []
     \<and> filter isTabsUpdate (fst (handleShareAction P t)) = [TabsUpdate (tab_id a)]
     \<and> (tabs_update P (tab_id a) = None \<longrightarrow>
          filter isWindowsUpdate (fst (handleShareAction P t)) = [WindowsUpdate (windowId a)])
     \<and> (tabs_update P (tab_id a) = None \<and> windows_update P (windowId a) = None \<longrightarrow>
          filter isDispatcherInjection (fst (handleShareAction P t)) =
            [ScriptingExecuteScript (tab_id a) dispatchShareIntentFunc u])
     \<and> length (filter isDispatcherInjection (fst (handleShareAction P t))) \<le> 1"
proof -
  note tr = existing_branch_trace [OF assms]
  have ev: "\<not> isTabsCreate ev \<and> \<not> isTabsUpdate ev \<and> \<not> isWindowsUpdate ev
      \<and> \<not> isDispatcherInjection ev"
    if "ev = (case executeScript P (tab_id t) clipboardWriteText u of
         None \<Rightarrow> ConsoleLog ''Aegis Quick Share: URL copied to clipboard''
       | Some e \<Rightarrow> ConsoleError ''Aegis Quick Share: Failed to copy to clipboard'' e)" for ev
    using that by (simp split: option.splits)
  show ?thesis
  proof (cases "tabs_update P (tab_id a)")
    case (Some e)
    then show ?thesis using ev by (simp add: tr)
  next
    case upd: None
    show ?thesis
    proof (cases "windows_update P (windowId a)")
      case (Some e)
      then show ?thesis using ev upd by (simp add: tr)
    next
      case foc: None
      show ?thesis
      proof (cases "executeScript P (tab_id a) dispatchShareIntentFunc u")
        case (Some e)
        then show ?thesis using ev upd foc by (simp add: tr)
      next
        case None
        then show ?thesis using ev upd foc by (simp add: tr)
      qed
    qed
  qed
qed

text \<open>
  C2 in a browser with two companion tabs where every call resolves: the first one is
  activated, its window focused, and the address injected into it.
\<close>

theorem companion_found_focus_then_inject_witness:
  "\<not> nonShareable (page_tab (js ''https://example.com/''))
   \<and> url (page_tab (js ''https://example.com/'')) = Some (js ''https://example.com/'')
   \<and> tabs_query (browser [aegis_tab 3, aegis_tab 5]) (js ''https://aegis-e31n.onrender.com/*'')
       = Inr [aegis_tab 3, aegis_tab 5]
   \<and> tabs_update (browser [aegis_tab 3, aegis_tab 5]) (Some 3) = None
   \<and> windows_update (browser [aegis_tab 3, aegis_tab 5]) 103 = None
   \<and> filter isTabsCreate
        (fst (handleShareAction (browser [aegis_tab 3, aegis_tab 5])
                (page_tab (js ''https://example.com/'')))) = []
   \<and> filter isTabsUpdate
        (fst (handleShareAction (browser [aegis_tab 3, aegis_tab 5])
                (page_tab (js ''https://example.com/'')))) = [TabsUpdate (Some 3)]
   \<and> filter isWindowsUpdate
        (fst (handleShareAction (browser [aegis_tab 3, aegis_tab 5])
                (page_tab (js ''https://example.com/'')))) = [WindowsUpdate 103]
   \<and> filter isDispatcherInjection
        (fst (handleShareAction (browser [aegis_tab 3, aegis_tab 5])
                (page_tab (js ''https://example.com/'')))) =
       [ScriptingExecuteScript (Some 3) dispatchShareIntentFunc (js ''https://example.com/'')]"
proof -
  have q: "tabs_query (browser [aegis_tab 3, aegis_tab 5])
      (js ''https://aegis-e31n.onrender.com/*'') = Inr [aegis_tab 3, aegis_tab 5]"
    by (simp add: browser_calls)
  note w = companion_found_focus_then_inject [OF simple_shareable page_tab_fields(2) q, unfolded aegis_tab_fields]
  have u: "tabs_update (browser [aegis_tab 3, aegis_tab 5]) (Some 3) = None"
    and f: "windows_update (browser [aegis_tab 3, aegis_tab 5]) 103 = None"
    by (simp_all add: browser_calls)
  have f': "windows_update (browser [aegis_tab 3, aegis_tab 5]) (100 + 3) = None"
    by (simp add: browser_calls)
  from w u f' have
    "filter isTabsCreate
        (fst (handleShareAction (browser [aegis_tab 3, aegis_tab 5])
                (page_tab (js ''https://example.com/'')))) = []"
    "filter isTabsUpdate
        (fst (handleShareAction (browser [aegis_tab 3, aegis_tab 5])
                (page_tab (js ''https://example.com/'')))) = [TabsUpdate (Some 3)]"
    "filter isWindowsUpdate
        (fst (handleShareAction (browser [aegis_tab 3, aegis_tab 5])
                (page_tab (js ''https://example.com/'')))) = [WindowsUpdate (100 + 3)]"
    "filter isDispatcherInjection
        (fst (handleShareAction (browser [aegis_tab 3, aegis_tab 5])
                (page_tab (js ''https://example.com/'')))) =
       [ScriptingExecuteScript (Some 3) dispatchShareIntentFunc (js ''https://example.com/'')]"
    by blast+
  with simple_shareable page_tab_fields(2) [of "js ''https://example.com/''"] q u f
  show ?thesis by simp
qed

text \<open>
  C3, as stated, fails on a page of another internal scheme: \<open>edge://settings/\<close> and
  \<open>about:blank\<close> begin with an internal-browser scheme, the guard tests only the two
  prefixes \<open>chrome://\<close> and \<open>chrome-extension://\<close>, and the run writes the clipboard,
  queries the tabs and creates a tab.
\<close>

theorem internal_scheme_page_is_shared:
  "hasInternalScheme (page_tab (js ''edge://settings/''))
   \<and> fst (handleShareAction (browser []) (page_tab (js ''edge://settings/''))) =
       [ScriptingExecuteScript (Some 7) clipboardWriteText (js ''edge://settings/''),
        ConsoleLog ''Aegis Quick Share: URL copied to clipboard'',
        TabsQuery (js ''https://aegis-e31n.onrender.com/*''),
        TabsCreate (js ''https://aegis-e31n.onrender.com/dashboard/social?share_url=edge%3A%2F%2Fsettings%2F''),
        ConsoleLog ''Aegis Quick Share: Opened new Aegis tab with share URL'']
   \<and> hasInternalScheme (page_tab (js ''about:blank''))
   \<and> fst (handleShareAction (browser []) (page_tab (js ''about:blank''))) =
       [ScriptingExecuteScript (Some 7) clipboardWriteText (js ''about:blank''),
        ConsoleLog ''Aegis Quick Share: URL copied to clipboard'',
        TabsQuery (js ''https://aegis-e31n.onrender.com/*''),
        TabsCreate (js ''https://aegis-e31n.onrender.com/dashboard/social?share_url=about%3Ablank''),
        ConsoleLog ''Aegis Quick Share: Opened new Aegis tab with share URL'']"
proof -
  have q: "tabs_query (browser []) (js ''https://aegis-e31n.onrender.com/*'') = Inr []"
    by (simp add: browser_calls)
  have 1: "hasInternalScheme (page_tab (js ''edge://settings/''))"
    by (simp add: hasInternalScheme_def internalBrowserSchemes_def extensionInternalSchemes_def
        page_tab_def js_def)
  have 2: "hasInternalScheme (page_tab (js ''about:blank''))"
    by (simp add: hasInternalScheme_def internalBrowserSchemes_def extensionInternalSchemes_def
        page_tab_def js_def)
  have 3: "fst (handleShareAction (browser []) (page_tab (js ''edge://settings/''))) =
       [ScriptingExecuteScript (Some 7) clipboardWriteText (js ''edge://settings/''),
        ConsoleLog ''Aegis Quick Share: URL copied to clipboard'',
        TabsQuery (js ''https://aegis-e31n.onrender.com/*''),
        TabsCreate (js ''https://aegis-e31n.onrender.com/dashboard/social?share_url=edge%3A%2F%2Fsettings%2F''),
        ConsoleLog ''Aegis Quick Share: Opened new Aegis tab with share URL'']"
    by (simp add: new_tab_branch_trace [OF edge_settings_shareable page_tab_fields(2) q]
        edge_settings_encoding browser_calls page_tab_fields share_address_concat)
  have 4: "fst (handleShareAction (browser []) (page_tab (js ''about:blank''))) =
       [ScriptingExecuteScript (Some 7) clipboardWriteText (js ''about:blank''),
        ConsoleLog ''Aegis Quick Share: URL copied to clipboard'',
        TabsQuery (js ''https://aegis-e31n.onrender.com/*''),
        TabsCreate (js ''https://aegis-e31n.onrender.com/dashboard/social?share_url=about%3Ablank''),
        ConsoleLog ''Aegis Quick Share: Opened new Aegis tab with share URL'']"
    by (simp add: new_tab_branch_trace [OF about_blank_shareable page_tab_fields(2) q]
        about_blank_encoding browser_calls page_tab_fields share_address_concat)
  from 1 2 3 4 show ?thesis by (simp only: simp_thms)
qed

text \<open>
  C3, amended. For a tab whose address is absent (or empty), or begins with the literal
  prefix \<open>chrome://\<close> or \<open>chrome-extension://\<close>, the handler logs one warning and does
  nothing else: the run holds no platform call at all (no clipboard write, no tab query,
  no focus, no injection, no tab creation) and returns normally.
\<close>

theorem nonShareable_only_warns:
  "nonShareable t \<Longrightarrow>
   handleShareAction P t =
     ([ConsoleWarn ''Aegis Quick Share: Cannot share this page type''], Inr ())
   \<and> filter isPlatformCall (fst (handleShareAction P t)) = []"
  by (simp add: handle_nonShareable)

text \<open>
  C3 at the address \<open>chrome://extensions/\<close>.
\<close>

theorem nonShareable_only_warns_witness:
  "nonShareable (page_tab (js ''chrome://extensions/''))
   \<and> handleShareAction (browser []) (page_tab (js ''chrome://extensions/'')) =
       ([ConsoleWarn ''Aegis Quick Share: Cannot share this page type''], Inr ())
   \<and> filter isPlatformCall
       (fst (handleShareAction (browser []) (page_tab (js ''chrome://extensions/'')))) = []"
proof -
  have h: "nonShareable (page_tab (js ''chrome://extensions/''))"
    by (simp add: nonShareable_def page_tab_def js_def)
  show ?thesis
    using h nonShareable_only_warns [OF h, of "browser []"] by simp
qed






text \<open>
  C6. Whatever the browser and the tab, an address handed to \<open>chrome.tabs.create\<close>
  carries a \<open>share_url\<close> parameter whose decoded value is exactly the address of the
  triggering tab. The encoding never fails on a well-formed string, and decoding what it
  produced gives the string back.
\<close>

theorem share_url_round_trip:
  "(url t = Some u \<and> TabsCreate a \<in> set (fst (handleShareAction P t))
      \<longrightarrow> decodedShareUrl a = Some u)
   \<and> (isWellFormed u \<longrightarrow>
        (\<exists>enc. encodeURIComponent u = Inr enc \<and> decodeURIComponent enc = Inr u
           \<and> decodedShareUrl
                (js ''https://aegis-e31n.onrender.com/dashboard/social?share_url='' @ enc)
              = Some u))"
proof -
  have 1: "url t = Some u \<and> TabsCreate a \<in> set (fst (handleShareAction P t))
      \<longrightarrow> decodedShareUrl a = Some u"
    using created_tab_address [of t u a P] decodedShareUrl_created [of u] by blast
  have 2: "isWellFormed u \<longrightarrow>
        (\<exists>enc. encodeURIComponent u = Inr enc \<and> decodeURIComponent enc = Inr u
           \<and> decodedShareUrl
                (js ''https://aegis-e31n.onrender.com/dashboard/social?share_url='' @ enc)
              = Some u)"
    using encode_total_on_wellFormed [of u] decode_encode [of u]
      decodedShareUrl_created [of u] share_address by metis
  from 1 2 show ?thesis by blast
qed

text \<open>
  C6 at the address of the example: the tab is created and its parameter decodes to the
  original address.
\<close>

theorem share_url_round_trip_witness:
  "url (page_tab (js ''https://example.com/a?x=1&y=2'')) = Some (js ''https://example.com/a?x=1&y=2'')
   \<and> TabsCreate (js ''https://aegis-e31n.onrender.com/dashboard/social?share_url=https%3A%2F%2Fexample.com%2Fa%3Fx%3D1%26y%3D2'')
       \<in> set (fst (handleShareAction (browser []) (page_tab (js ''https://example.com/a?x=1&y=2''))))
   \<and> decodedShareUrl (js ''https://aegis-e31n.onrender.com/dashboard/social?share_url=https%3A%2F%2Fexample.com%2Fa%3Fx%3D1%26y%3D2'')
       = Some (js ''https://example.com/a?x=1&y=2'')
   \<and> isWellFormed (js ''https://example.com/a?x=1&y=2'')
   \<and> decodeURIComponent (js ''https%3A%2F%2Fexample.com%2Fa%3Fx%3D1%26y%3D2'') =
       Inr (js ''https://example.com/a?x=1&y=2'')"
proof -
  let ?t = "page_tab (js ''https://example.com/a?x=1&y=2'')"
  let ?a = "js ''https://aegis-e31n.onrender.com/dashboard/social?share_url=https%3A%2F%2Fexample.com%2Fa%3Fx%3D1%26y%3D2''"
  have u: "url ?t = Some (js ''https://example.com/a?x=1&y=2'')"
    by (simp add: page_tab_def)
  have q: "tabs_query (browser []) (js ''https://aegis-e31n.onrender.com/*'') = Inr []"
    by (simp add: browser_calls)
  have a: "js ''https://aegis-e31n.onrender.com/dashboard/social?share_url=''
       @ js ''https%3A%2F%2Fexample.com%2Fa%3Fx%3D1%26y%3D2'' = ?a"
    by (simp add: js_def)
  have c: "TabsCreate ?a \<in> set (fst (handleShareAction (browser []) ?t))"
    by (simp add: new_tab_branch_trace [OF example_shareable u q] example_encoding a
        browser_calls)
  note rt = share_url_round_trip [of ?t "js ''https://example.com/a?x=1&y=2''" ?a "browser []"]
  from rt u c
  have d: "decodedShareUrl ?a = Some (js ''https://example.com/a?x=1&y=2'')"
    by blast
  from rt example_wellFormed obtain enc
    where "encodeURIComponent (js ''https://example.com/a?x=1&y=2'') = Inr enc"
      and "decodeURIComponent enc = Inr (js ''https://example.com/a?x=1&y=2'')"
    by blast
  then have "decodeURIComponent (js ''https%3A%2F%2Fexample.com%2Fa%3Fx%3D1%26y%3D2'') =
       Inr (js ''https://example.com/a?x=1&y=2'')"
    by (simp add: example_encoding)
  with u c d example_wellFormed show ?thesis by blast
qed

text \<open>
  C7. The claim is not met by the code where the page refuses the clipboard write. The
  injected function drops the promise of \<open>navigator.clipboard.writeText\<close> and returns
  \<open>undefined\<close>, so the injection resolves; had the promise been returned, the \<open>await\<close>
  would have rejected. \<open>copyToClipboard\<close> therefore catches nothing and logs
  "URL copied to clipboard": the failed write is neither caught nor logged. The run goes
  on and ends normally.
\<close>

theorem denied_write_is_logged_as_copied:
  "clipboardWriteFunc (Some (Rejected 5)) (js ''https://example.com/'') =
     ([NavigatorClipboardWriteText (js ''https://example.com/'')], Undefined, [Rejected 5])
   \<and> injectionOutcome None Undefined = None
   \<and> injectionOutcome None (Promise (Some (Rejected 5))) = Some (Rejected 5)
   \<and> executeScript (browser_write_denied []) (Some 7) clipboardWriteText
        (js ''https://example.com/'') = None
   \<and> copyToClipboard (browser_write_denied []) (js ''https://example.com/'') (Some 7) =
       ([ScriptingExecuteScript (Some 7) clipboardWriteText (js ''https://example.com/''),
         ConsoleLog ''Aegis Quick Share: URL copied to clipboard''], Inr ())
   \<and> fst (handleShareAction (browser_write_denied []) (page_tab (js ''https://example.com/''))) =
       [ScriptingExecuteScript (Some 7) clipboardWriteText (js ''https://example.com/''),
        ConsoleLog ''Aegis Quick Share: URL copied to clipboard'',
        TabsQuery (js ''https://aegis-e31n.onrender.com/*''),
        TabsCreate (js ''https://aegis-e31n.onrender.com/dashboard/social?share_url=https%3A%2F%2Fexample.com%2F''),
        ConsoleLog ''Aegis Quick Share: Opened new Aegis tab with share URL'']"
proof -
  have q: "tabs_query (browser_write_denied []) (js ''https://aegis-e31n.onrender.com/*'') = Inr []"
    by (simp add: browser_write_denied_calls)
  have 1: "clipboardWriteFunc (Some (Rejected 5)) (js ''https://example.com/'') =
     ([NavigatorClipboardWriteText (js ''https://example.com/'')], Undefined, [Rejected 5])"
    by (simp add: clipboardWriteFunc_def)
  have 2: "injectionOutcome None Undefined = None"
    and 3: "injectionOutcome None (Promise (Some (Rejected 5))) = Some (Rejected 5)"
    by (simp_all add: injectionOutcome_def)
  have 4: "executeScript (browser_write_denied []) (Some 7) clipboardWriteText
        (js ''https://example.com/'') = None"
    by (simp add: browser_write_denied_def 1 2)
  have 5: "copyToClipboard (browser_write_denied []) (js ''https://example.com/'') (Some 7) =
       ([ScriptingExecuteScript (Some 7) clipboardWriteText (js ''https://example.com/''),
         ConsoleLog ''Aegis Quick Share: URL copied to clipboard''], Inr ())"
    by (simp add: copyToClipboard_run 4)
  have 6: "fst (handleShareAction (browser_write_denied []) (page_tab (js ''https://example.com/''))) =
       [ScriptingExecuteScript (Some 7) clipboardWriteText (js ''https://example.com/''),
        ConsoleLog ''Aegis Quick Share: URL copied to clipboard'',
        TabsQuery (js ''https://aegis-e31n.onrender.com/*''),
        TabsCreate (js ''https://aegis-e31n.onrender.com/dashboard/social?share_url=https%3A%2F%2Fexample.com%2F''),
        ConsoleLog ''Aegis Quick Share: Opened new Aegis tab with share URL'']"
    by (simp add: new_tab_branch_trace [OF simple_shareable page_tab_fields(2) q]
        simple_encoding browser_write_denied_calls page_tab_fields share_address_concat)
  from 1 2 3 4 5 6 show ?thesis by (simp only: simp_thms)
qed

text \<open>
  C8. Run with URL \<open>u\<close>, the dispatcher synchronously does one thing to the page: it
  dispatches on the window a \<open>CustomEvent\<close> named \<open>AEGIS_SHARE_INTENT\<close> whose detail is
  the object with the single property \<open>url\<close>, of value \<open>u\<close>. Whatever time has elapsed
  and whatever the page, that event is the first thing done and the only custom event.
  The function takes nothing back from the page: the timer is registered whether or not
  anything listened.
\<close>

theorem share_intent_raised_first:
  "fst (dispatchShareIntent u) =
     [WindowDispatchCustomEvent (js ''AEGIS_SHARE_INTENT'') [(js ''url'', u)]]
   \<and> take 1 (fst (injectedRun u elapsed pg)) =
     [WindowDispatchCustomEvent (js ''AEGIS_SHARE_INTENT'') [(js ''url'', u)]]
   \<and> filter isCustomEvent (fst (injectedRun u elapsed pg)) =
     [WindowDispatchCustomEvent (js ''AEGIS_SHARE_INTENT'') [(js ''url'', u)]]
   \<and> map fst (snd (dispatchShareIntent u)) = [100]"
  by (simp add: injectedRun_eq dispatchShareIntent_def timeoutCallback_no_custom)

text \<open>
  C9. The handler rejects (its whole run is the warning) exactly when the address is
  absent, empty, or has the literal prefix \<open>chrome://\<close> or \<open>chrome-extension://\<close>, code
  unit for code unit. In every other case the run is the full flow: the clipboard write,
  its console line, the companion-tab query, and then, by the result of the query, the
  activation, window focus and dispatcher injection for the first tab found, or the
  creation of a tab for the encoded address, each cut at the first call that fails and
  closed by its console line. \<open>about:blank\<close>, a \<open>file:\<close> address, an \<open>edge:\<close> address
  and \<open>Chrome://extensions/\<close> are such cases.
\<close>

theorem rejected_exactly_empty_or_chrome:
  "((handleShareAction P t =
       ([ConsoleWarn ''Aegis Quick Share: Cannot share this page type''], Inr ()))
     = (url t = None \<or> url t = Some []
        \<or> (\<exists>u. url t = Some u
              \<and> (prefix (js ''chrome://'') u \<or> prefix (js ''chrome-extension://'') u))))
   \<and> (handleShareAction P t \<noteq>
         ([ConsoleWarn ''Aegis Quick Share: Cannot share this page type''], Inr ()) \<longrightarrow>
       (\<exists>u. url t = Some u
          \<and> fst (handleShareAction P t) =
             [ScriptingExecuteScript (tab_id t) clipboardWriteText u,
              (case executeScript P (tab_id t) clipboardWriteText u of
                 None \<Rightarrow> ConsoleLog ''Aegis Quick Share: URL copied to clipboard''
               | Some e \<Rightarrow> ConsoleError ''Aegis Quick Share: Failed to copy to clipboard'' e),
              TabsQuery (js ''https://aegis-e31n.onrender.com/*'')] @
             (case tabs_query P (js ''https://aegis-e31n.onrender.com/*'') of
                Inl e \<Rightarrow> [ConsoleError ''Aegis Quick Share: Error during share action'' e]
              | Inr [] \<Rightarrow>
                 (case encodeURIComponent u of
                    Inl e \<Rightarrow> [ConsoleError ''Aegis Quick Share: Error during share action'' e]
                  | Inr enc \<Rightarrow>
                     (case tabs_create P
                             (js ''https://aegis-e31n.onrender.com/dashboard/social?share_url=''
                                @ enc) of
                        Some e \<Rightarrow>
                          [TabsCreate
                             (js ''https://aegis-e31n.onrender.com/dashboard/social?share_url=''
                                @ enc),
                           ConsoleError ''Aegis Quick Share: Error during share action'' e]
                      | None \<Rightarrow>
                          [TabsCreate
                             (js ''https://aegis-e31n.onrender.com/dashboard/social?share_url=''
                                @ enc),
                           ConsoleLog ''Aegis Quick Share: Opened new Aegis tab with share URL'']))
              | Inr (a # as) \<Rightarrow>
                 (case tabs_update P (tab_id a) of
                    Some e \<Rightarrow>
                      [TabsUpdate (tab_id a),
                       ConsoleError ''Aegis Quick Share: Error during share action'' e]
                  | None \<Rightarrow>
                     (case windows_update P (windowId a) of
                        Some e \<Rightarrow>
                          [TabsUpdate (tab_id a), WindowsUpdate (windowId a),
                           ConsoleError ''Aegis Quick Share: Error during share action'' e]
                      | None \<Rightarrow>
                         (case executeScript P (tab_id a) dispatchShareIntentFunc u of
                            Some e \<Rightarrow>
                              [TabsUpdate (tab_id a), WindowsUpdate (windowId a),
                               ScriptingExecuteScript (tab_id a) dispatchShareIntentFunc u,
                               ConsoleError ''Aegis Quick Share: Error during share action'' e]
                          | None \<Rightarrow>
                              [TabsUpdate (tab_id a), WindowsUpdate (windowId a),
                               ScriptingExecuteScript (tab_id a) dispatchShareIntentFunc u,
                               ConsoleLog
                                 ''Aegis Quick Share: Dispatched share intent to existing tab'']))))))
   \<and> (url t = Some (js ''about:blank'') \<or> url t = Some (js ''file:///home/user/notes.html'')
        \<or> url t = Some (js ''edge://settings/'') \<or> url t = Some (js ''Chrome://extensions/'') \<longrightarrow>
       handleShareAction P t \<noteq>
         ([ConsoleWarn ''Aegis Quick Share: Cannot share this page type''], Inr ()))"
proof -
  have starts: "\<exists>u. url t = Some u
      \<and> hd (fst (handleShareAction P t)) = ScriptingExecuteScript (tab_id t) clipboardWriteText u"
    if ns: "\<not> nonShareable t"
  proof -
    from ns obtain u where u: "url t = Some u"
      by (auto simp: nonShareable_def split: option.splits)
    then show ?thesis by (simp add: shareable_run [OF ns u])
  qed
  have iff: "(handleShareAction P t =
       ([ConsoleWarn ''Aegis Quick Share: Cannot share this page type''], Inr ()))
     = nonShareable t"
  proof
    assume w: "handleShareAction P t =
       ([ConsoleWarn ''Aegis Quick Share: Cannot share this page type''], Inr ())"
    show "nonShareable t"
    proof (rule ccontr)
      assume "\<not> nonShareable t"
      from starts [OF this] w show False by auto
    qed
  next
    assume "nonShareable t"
    then show "handleShareAction P t =
       ([ConsoleWarn ''Aegis Quick Share: Cannot share this page type''], Inr ())"
      by (rule handle_nonShareable)
  qed
  have run: "\<exists>u. url t = Some u \<and> fst (handleShareAction P t) =
             [ScriptingExecuteScript (tab_id t) clipboardWriteText u,
              (case executeScript P (tab_id t) clipboardWriteText u of
                 None \<Rightarrow> ConsoleLog ''Aegis Quick Share: URL copied to clipboard''
               | Some e \<Rightarrow> ConsoleError ''Aegis Quick Share: Failed to copy to clipboard'' e),
              TabsQuery (js ''https://aegis-e31n.onrender.com/*'')] @
             (case tabs_query P (js ''https://aegis-e31n.onrender.com/*'') of
                Inl e \<Rightarrow> [ConsoleError ''Aegis Quick Share: Error during share action'' e]
              | Inr [] \<Rightarrow>
                 (case encodeURIComponent u of
                    Inl e \<Rightarrow> [ConsoleError ''Aegis Quick Share: Error during share action'' e]
                  | Inr enc \<Rightarrow>
                     (case tabs_create P
                             (js ''https://aegis-e31n.onrender.com/dashboard/social?share_url=''
                                @ enc) of
                        Some e \<Rightarrow>
                          [TabsCreate
                             (js ''https://aegis-e31n.onrender.com/dashboard/social?share_url=''
                                @ enc),
                           ConsoleError ''Aegis Quick Share: Error during share action'' e]
                      | None \<Rightarrow>
                          [TabsCreate
                             (js ''https://aegis-e31n.onrender.com/dashboard/social?share_url=''
                                @ enc),
                           ConsoleLog ''Aegis Quick Share: Opened new Aegis tab with share URL'']))
              | Inr (a # as) \<Rightarrow>
                 (case tabs_update P (tab_id a) of
                    Some e \<Rightarrow>
                      [TabsUpdate (tab_id a),
                       ConsoleError ''Aegis Quick Share: Error during share action'' e]
                  | None \<Rightarrow>
                     (case windows_update P (windowId a) of
                        Some e \<Rightarrow>
                          [TabsUpdate (tab_id a), WindowsUpdate (windowId a),
                           ConsoleError ''Aegis Quick Share: Error during share action'' e]
                      | None \<Rightarrow>
                         (case executeScript P (tab_id a) dispatchShareIntentFunc u of
                            Some e \<Rightarrow>
                              [TabsUpdate (tab_id a), WindowsUpdate (windowId a),
                               ScriptingExecuteScript (tab_id a) dispatchShareIntentFunc u,
                               ConsoleError ''Aegis Quick Share: Error during share action'' e]
                          | None \<Rightarrow>
                              [TabsUpdate (tab_id a), WindowsUpdate (windowId a),
                               ScriptingExecuteScript (tab_id a) dispatchShareIntentFunc u,
                               ConsoleLog
                                 ''Aegis Quick Share: Dispatched share intent to existing tab'']))))"
    if ns: "\<not> nonShareable t"
  proof -
    from ns obtain u where u: "url t = Some u"
      by (auto simp: nonShareable_def split: option.splits)
    from shareable_run [OF ns u, of P] u show ?thesis by blast
  qed
  have ex: "\<not> nonShareable t"
    if "url t = Some (js ''about:blank'') \<or> url t = Some (js ''file:///home/user/notes.html'')
        \<or> url t = Some (js ''edge://settings/'') \<or> url t = Some (js ''Chrome://extensions/'')"
    using that by (auto simp: nonShareable_def js_def)
  from iff have iff': "(handleShareAction P t =
       ([ConsoleWarn ''Aegis Quick Share: Cannot share this page type''], Inr ()))
     = (url t = None \<or> url t = Some []
        \<or> (\<exists>u. url t = Some u
              \<and> (prefix (js ''chrome://'') u \<or> prefix (js ''chrome-extension://'') u)))"
    by (simp only: nonShareable_iff)
  from iff run have run': "handleShareAction P t \<noteq>
         ([ConsoleWarn ''Aegis Quick Share: Cannot share this page type''], Inr ()) \<longrightarrow>
       (\<exists>u. url t = Some u \<and> fst (handleShareAction P t) =
             [ScriptingExecuteScript (tab_id t) clipboardWriteText u,
              (case executeScript P (tab_id t) clipboardWriteText u of
                 None \<Rightarrow> ConsoleLog ''Aegis Quick Share: URL copied to clipboard''
               | Some e \<Rightarrow> ConsoleError ''Aegis Quick Share: Failed to copy to clipboard'' e),
              TabsQuery (js ''https://aegis-e31n.onrender.com/*'')] @
             (case tabs_query P (js ''https://aegis-e31n.onrender.com/*'') of
                Inl e \<Rightarrow> [ConsoleError ''Aegis Quick Share: Error during share action'' e]
              | Inr [] \<Rightarrow>
                 (case encodeURIComponent u of
                    Inl e \<Rightarrow> [ConsoleError ''Aegis Quick Share: Error during share action'' e]
                  | Inr enc \<Rightarrow>
                     (case tabs_create P
                             (js ''https://aegis-e31n.onrender.com/dashboard/social?share_url=''
                                @ enc) of
                        Some e \<Rightarrow>
                          [TabsCreate
                             (js ''https://aegis-e31n.onrender.com/dashboard/social?share_url=''
                                @ enc),
                           ConsoleError ''Aegis Quick Share: Error during share action'' e]
                      | None \<Rightarrow>
                          [TabsCreate
                             (js ''https://aegis-e31n.onrender.com/dashboard/social?share_url=''
                                @ enc),
                           ConsoleLog ''Aegis Quick Share: Opened new Aegis tab with share URL'']))
              | Inr (a # as) \<Rightarrow>
                 (case tabs_update P (tab_id a) of
                    Some e \<Rightarrow>
                      [TabsUpdate (tab_id a),
                       ConsoleError ''Aegis Quick Share: Error during share action'' e]
                  | None \<Rightarrow>
                     (case windows_update P (windowId a) of
                        Some e \<Rightarrow>
                          [TabsUpdate (tab_id a), WindowsUpdate (windowId a),
                           ConsoleError ''Aegis Quick Share: Error during share action'' e]
                      | None \<Rightarrow>
                         (case executeScript P (tab_id a) dispatchShareIntentFunc u of
                            Some e \<Rightarrow>
                              [TabsUpdate (tab_id a), WindowsUpdate (windowId a),
                               ScriptingExecuteScript (tab_id a) dispatchShareIntentFunc u,
                               ConsoleError ''Aegis Quick Share: Error during share action'' e]
                          | None \<Rightarrow>
                              [TabsUpdate (tab_id a), WindowsUpdate (windowId a),
                               ScriptingExecuteScript (tab_id a) dispatchShareIntentFunc u,
                               ConsoleLog
                                 ''Aegis Quick Share: Dispatched share intent to existing tab''])))))"
    by blast
  from iff ex have ex': "url t = Some (js ''about:blank'')
        \<or> url t = Some (js ''file:///home/user/notes.html'')
        \<or> url t = Some (js ''edge://settings/'') \<or> url t = Some (js ''Chrome://extensions/'') \<longrightarrow>
       handleShareAction P t \<noteq>
         ([ConsoleWarn ''Aegis Quick Share: Cannot share this page type''], Inr ())"
    by blast
  from iff' run' ex' show ?thesis by (rule conjI [OF _ conjI])
qed

text \<open>
  C9 at \<open>about:blank\<close> with no companion tab (a tab is created), at
  \<open>Chrome://extensions/\<close> with a companion tab (the address is dispatched to it), and at
  an extension page, which is rejected.
\<close>

theorem rejected_exactly_empty_or_chrome_witness:
  "url (page_tab (js ''about:blank'')) = Some (js ''about:blank'')
   \<and> handleShareAction (browser []) (page_tab (js ''about:blank'')) \<noteq>
       ([ConsoleWarn ''Aegis Quick Share: Cannot share this page type''], Inr ())
   \<and> fst (handleShareAction (browser []) (page_tab (js ''about:blank''))) =
       [ScriptingExecuteScript (Some 7) clipboardWriteText (js ''about:blank''),
        ConsoleLog ''Aegis Quick Share: URL copied to clipboard'',
        TabsQuery (js ''https://aegis-e31n.onrender.com/*''),
        TabsCreate (js ''https://aegis-e31n.onrender.com/dashboard/social?share_url=about%3Ablank''),
        ConsoleLog ''Aegis Quick Share: Opened new Aegis tab with share URL'']
   \<and> url (page_tab (js ''Chrome://extensions/'')) = Some (js ''Chrome://extensions/'')
   \<and> fst (handleShareAction (browser [aegis_tab 3]) (page_tab (js ''Chrome://extensions/''))) =
       [ScriptingExecuteScript (Some 7) clipboardWriteText (js ''Chrome://extensions/''),
        ConsoleLog ''Aegis Quick Share: URL copied to clipboard'',
        TabsQuery (js ''https://aegis-e31n.onrender.com/*''),
        TabsUpdate (Some 3), WindowsUpdate 103,
        ScriptingExecuteScript (Some 3) dispatchShareIntentFunc (js ''Chrome://extensions/''),
        ConsoleLog ''Aegis Quick Share: Dispatched share intent to existing tab'']
   \<and> prefix (js ''chrome-extension://'') (js ''chrome-extension://abcdef/popup.html'')
   \<and> handleShareAction (browser []) (page_tab (js ''chrome-extension://abcdef/popup.html'')) =
       ([ConsoleWarn ''Aegis Quick Share: Cannot share this page type''], Inr ())"
proof -
  let ?t = "page_tab (js ''about:blank'')"
  let ?c = "page_tab (js ''Chrome://extensions/'')"
  let ?x = "page_tab (js ''chrome-extension://abcdef/popup.html'')"
  note a = rejected_exactly_empty_or_chrome [of "browser []" ?t]
  note b = rejected_exactly_empty_or_chrome [of "browser []" ?x]
  note c = rejected_exactly_empty_or_chrome [of "browser [aegis_tab 3]" ?c]
  have u: "url ?t = Some (js ''about:blank'')" and uc: "url ?c = Some (js ''Chrome://extensions/'')"
    by (rule page_tab_fields)+
  from a u have 1: "handleShareAction (browser []) ?t \<noteq>
       ([ConsoleWarn ''Aegis Quick Share: Cannot share this page type''], Inr ())"
    by blast
  from a 1 u have 2: "fst (handleShareAction (browser []) ?t) =
       [ScriptingExecuteScript (Some 7) clipboardWriteText (js ''about:blank''),
        ConsoleLog ''Aegis Quick Share: URL copied to clipboard'',
        TabsQuery (js ''https://aegis-e31n.onrender.com/*''),
        TabsCreate (js ''https://aegis-e31n.onrender.com/dashboard/social?share_url=about%3Ablank''),
        ConsoleLog ''Aegis Quick Share: Opened new Aegis tab with share URL'']"
    by (auto simp: browser_calls page_tab_fields about_blank_encoding share_address_concat)
  from c uc have 3: "handleShareAction (browser [aegis_tab 3]) ?c \<noteq>
       ([ConsoleWarn ''Aegis Quick Share: Cannot share this page type''], Inr ())"
    by blast
  from c 3 uc have 4: "fst (handleShareAction (browser [aegis_tab 3]) ?c) =
       [ScriptingExecuteScript (Some 7) clipboardWriteText (js ''Chrome://extensions/''),
        ConsoleLog ''Aegis Quick Share: URL copied to clipboard'',
        TabsQuery (js ''https://aegis-e31n.onrender.com/*''),
        TabsUpdate (Some 3), WindowsUpdate 103,
        ScriptingExecuteScript (Some 3) dispatchShareIntentFunc (js ''Chrome://extensions/''),
        ConsoleLog ''Aegis Quick Share: Dispatched share intent to existing tab'']"
    by (auto simp: browser_calls page_tab_fields aegis_tab_fields)
  from b extension_page_rejected page_tab_fields(2) [of "js ''chrome-extension://abcdef/popup.html''"]
  have 5: "handleShareAction (browser []) ?x =
       ([ConsoleWarn ''Aegis Quick Share: Cannot share this page type''], Inr ())"
    by blast
  from u 1 2 uc 4 extension_page_rejected 5 show ?thesis by (simp only: simp_thms)
qed

text \<open>
  C10. With a companion tab found, the run after the query is fixed by the first call
  that fails: activation, then window focus, then injection, in that order, and the
  first rejection is followed by the console error of the top-level handler and nothing
  else. In particular a rejected activation leaves no window focus and no injection, a
  rejected window focus leaves no injection, and in no case is a tab created. The
  handler still ends normally.
\<close>

theorem existing_branch_stops_at_first_failure:
  assumes "\<not> nonShareable t" and "url t = Some u"
    and "tabs_query P (js ''https://aegis-e31n.onrender.com/*'') = Inr (a # as)"
  shows "(\<exists>ev. \<not> isPlatformCall ev \<and>
       fst (handleShareAction P t) =
         [ScriptingExecuteScript (tab_id t) clipboardWriteText u, ev,
          TabsQuery (js ''https://aegis-e31n.onrender.com/*'')] @
         (case tabs_update P (tab_id a) of
            Some e \<Rightarrow>
              [TabsUpdate (tab_id a),
               ConsoleError ''Aegis Quick Share: Error during share action'' e]
          | None \<Rightarrow>
             (case windows_update P (windowId a) of
                Some e \<Rightarrow>
                  [TabsUpdate (tab_id a), WindowsUpdate (windowId a),
                   ConsoleError ''Aegis Quick Share: Error during share action'' e]
              | None \<Rightarrow>
                 (case executeScript P (tab_id a) dispatchShareIntentFunc u of
                    Some e \<Rightarrow>
                      [TabsUpdate (tab_id a), WindowsUpdate (windowId a),
                       ScriptingExecuteScript (tab_id a) dispatchShareIntentFunc u,
                       ConsoleError ''Aegis Quick Share: Error during share action'' e]
                  | None \<Rightarrow>
                      [TabsUpdate (tab_id a), WindowsUpdate (windowId a),
                       ScriptingExecuteScript (tab_id a) dispatchShareIntentFunc u,
                       ConsoleLog
                         ''Aegis Quick Share: Dispatched share intent to existing tab'']))))
     \<and> (tabs_update P (tab_id a) \<noteq> None \<longrightarrow>
          filter isWindowsUpdate (fst (handleShareAction P t)) = []
          \<and> filter isDispatcherInjection (fst (handleShareAction P t)) = [])
     \<and> (windows_update P (windowId a) \<noteq> None \<longrightarrow>
          filter isDispatcherInjection (fst (handleShareAction P t)) = [])
     \<and> filter isTabsCreate (fst (handleShareAction P t)) = []
     \<and> snd (handleShareAction P t) = Inr ()"
proof -
  note tr = existing_branch_trace [OF assms]
  let ?ev = "case executeScript P (tab_id t) clipboardWriteText u of
         None \<Rightarrow> ConsoleLog ''Aegis Quick Share: URL copied to clipboard''
       | Some e \<Rightarrow> ConsoleError ''Aegis Quick Share: Failed to copy to clipboard'' e"
  have ev: "\<not> isPlatformCall ?ev" "\<not> isTabsCreate ?ev" "\<not> isWindowsUpdate ?ev"
    "\<not> isDispatcherInjection ?ev"
    by (simp_all split: option.splits)
  have 1: "\<exists>ev. \<not> isPlatformCall ev \<and>
       fst (handleShareAction P t) =
         [ScriptingExecuteScript (tab_id t) clipboardWriteText u, ev,
          TabsQuery (js ''https://aegis-e31n.onrender.com/*'')] @
         (case tabs_update P (tab_id a) of
            Some e \<Rightarrow>
              [TabsUpdate (tab_id a),
               ConsoleError ''Aegis Quick Share: Error during share action'' e]
          | None \<Rightarrow>
             (case windows_update P (windowId a) of
                Some e \<Rightarrow>
                  [TabsUpdate (tab_id a), WindowsUpdate (windowId a),
                   ConsoleError ''Aegis Quick Share: Error during share action'' e]
              | None \<Rightarrow>
                 (case executeScript P (tab_id a) dispatchShareIntentFunc u of
                    Some e \<Rightarrow>
                      [TabsUpdate (tab_id a), WindowsUpdate (windowId a),
                       ScriptingExecuteScript (tab_id a) dispatchShareIntentFunc u,
                       ConsoleError ''Aegis Quick Share: Error during share action'' e]
                  | None \<Rightarrow>
                      [TabsUpdate (tab_id a), WindowsUpdate (windowId a),
                       ScriptingExecuteScript (tab_id a) dispatchShareIntentFunc u,
                       ConsoleLog
                         ''Aegis Quick Share: Dispatched share intent to existing tab''])))"
    using ev(1) tr by blast
  have 2: "filter isWindowsUpdate (fst (handleShareAction P t)) = []
          \<and> filter isDispatcherInjection (fst (handleShareAction P t)) = []"
    if "tabs_update P (tab_id a) \<noteq> None"
  proof -
    from that obtain e where "tabs_update P (tab_id a) = Some e" by blast
    then show ?thesis using ev by (simp add: tr)
  qed
  have 3: "filter isDispatcherInjection (fst (handleShareAction P t)) = []"
    if "windows_update P (windowId a) \<noteq> None"
  proof -
    from that obtain e where w: "windows_update P (windowId a) = Some e" by blast
    show ?thesis
    proof (cases "tabs_update P (tab_id a)")
      case None
      then show ?thesis using ev w by (simp add: tr)
    next
      case (Some e')
      then show ?thesis using ev by (simp add: tr)
    qed
  qed
  have 4: "filter isTabsCreate (fst (handleShareAction P t)) = []"
  proof (cases "tabs_update P (tab_id a)")
    case (Some e)
    then show ?thesis using ev by (simp add: tr)
  next
    case upd: None
    show ?thesis
    proof (cases "windows_update P (windowId a)")
      case (Some e)
      then show ?thesis using ev upd by (simp add: tr)
    next
      case foc: None
      show ?thesis
      proof (cases "executeScript P (tab_id a) dispatchShareIntentFunc u")
        case (Some e)
        then show ?thesis using ev upd foc by (simp add: tr)
      next
        case None
        then show ?thesis using ev upd foc by (simp add: tr)
      qed
    qed
  qed
  have 5: "snd (handleShareAction P t) = Inr ()" by (rule handle_never_throws)
  from 1 2 3 4 5 show ?thesis by blast
qed

text \<open>
  C10 in a browser that rejects the activation and in one that rejects the window focus.
\<close>

theorem existing_branch_stops_at_first_failure_witness:
  "\<not> nonShareable (page_tab (js ''https://example.com/''))
   \<and> url (page_tab (js ''https://example.com/'')) = Some (js ''https://example.com/'')
   \<and> tabs_query (browser_activation_fails [aegis_tab 3]) (js ''https://aegis-e31n.onrender.com/*'')
       = Inr [aegis_tab 3]
   \<and> tabs_update (browser_activation_fails [aegis_tab 3]) (Some 3) \<noteq> None
   \<and> filter isWindowsUpdate
        (fst (handleShareAction (browser_activation_fails [aegis_tab 3])
                (page_tab (js ''https://example.com/'')))) = []
   \<and> filter isDispatcherInjection
        (fst (handleShareAction (browser_activation_fails [aegis_tab 3])
                (page_tab (js ''https://example.com/'')))) = []
   \<and> filter isTabsCreate
        (fst (handleShareAction (browser_activation_fails [aegis_tab 3])
                (page_tab (js ''https://example.com/'')))) = []
   \<and> tabs_query (browser_focus_fails [aegis_tab 3]) (js ''https://aegis-e31n.onrender.com/*'')
       = Inr [aegis_tab 3]
   \<and> windows_update (browser_focus_fails [aegis_tab 3]) 103 \<noteq> None
   \<and> filter isDispatcherInjection
        (fst (handleShareAction (browser_focus_fails [aegis_tab 3])
                (page_tab (js ''https://example.com/'')))) = []
   \<and> filter isTabsCreate
        (fst (handleShareAction (browser_focus_fails [aegis_tab 3])
                (page_tab (js ''https://example.com/'')))) = []"
proof -
  let ?t = "page_tab (js ''https://example.com/'')"
  have q1: "tabs_query (browser_activation_fails [aegis_tab 3])
      (js ''https://aegis-e31n.onrender.com/*'') = Inr [aegis_tab 3]"
    by (simp add: browser_activation_fails_calls)
  have q2: "tabs_query (browser_focus_fails [aegis_tab 3])
      (js ''https://aegis-e31n.onrender.com/*'') = Inr [aegis_tab 3]"
    by (simp add: browser_focus_fails_calls)
  have f1: "tabs_update (browser_activation_fails [aegis_tab 3]) (Some 3) \<noteq> None"
    by (simp add: browser_activation_fails_calls)
  have f2: "windows_update (browser_focus_fails [aegis_tab 3]) 103 \<noteq> None"
    and f2': "windows_update (browser_focus_fails [aegis_tab 3]) (100 + 3) \<noteq> None"
    by (simp_all add: browser_focus_fails_calls)
  note a = existing_branch_stops_at_first_failure [OF simple_shareable page_tab_fields(2) q1, unfolded aegis_tab_fields]
  note b = existing_branch_stops_at_first_failure [OF simple_shareable page_tab_fields(2) q2, unfolded aegis_tab_fields]
  from a f1 have a': "filter isWindowsUpdate
        (fst (handleShareAction (browser_activation_fails [aegis_tab 3]) ?t)) = []"
      "filter isDispatcherInjection
        (fst (handleShareAction (browser_activation_fails [aegis_tab 3]) ?t)) = []"
      "filter isTabsCreate
        (fst (handleShareAction (browser_activation_fails [aegis_tab 3]) ?t)) = []"
    by blast+
  from b f2' have b': "filter isDispatcherInjection
        (fst (handleShareAction (browser_focus_fails [aegis_tab 3]) ?t)) = []"
      "filter isTabsCreate
        (fst (handleShareAction (browser_focus_fails [aegis_tab 3]) ?t)) = []"
    by blast+
  from simple_shareable page_tab_fields(2) [of "js ''https://example.com/''"] q1 q2 f1 f2 a' b'
  show ?thesis by blast
qed

end
